theory Spec2Isabelle
  imports
    Main
    "HOL-Library.Char_ord"
    "HOL-Library.List_Lexorder"
    "HOL-Library.Multiset"
begin

section \<open>Python values and errors\<close>

text \<open>
  The packaging layer of cerbero is Python. Strings are \<^typ>\<open>string\<close>, ordered by
  code point, lists are HOL lists, dictionaries are maps or association lists, \<open>None\<close>
  is \<^const>\<open>None\<close>. Every exception the modelled code can raise is a value of
  \<open>error\<close>, and a function that can raise returns \<open>error + 'a\<close>.
\<close>

datatype error =
    AttributeError
  | IndexError
  | KeyError string
  | UnboundLocalError
  | RecipeNotFoundError string
  | PathTraversal
  | FatalError string
  | EmptyPackageError
  | TypeError
  | ValueError
  | ShellError
  | FileNotFoundError
  | IsADirectoryError
  | NotADirectoryError
  | ReadError

text \<open>Sequencing of a computation that may raise.\<close>

definition bind_err :: "error + 'a \<Rightarrow> ('a \<Rightarrow> error + 'b) \<Rightarrow> error + 'b" where
  "bind_err r f = (case r of Inl e \<Rightarrow> Inl e | Inr v \<Rightarrow> f v)"

text \<open>
  A \<open>for\<close> loop that extends a list with the result of a call on every element, and stops
  at the first call that raises: \<open>for x in xs: acc.extend(f(x))\<close>.
\<close>

fun extend_each :: "('a \<Rightarrow> error + 'b list) \<Rightarrow> 'a list \<Rightarrow> 'b list \<Rightarrow> error + 'b list" where
  "extend_each f [] acc = Inr acc"
| "extend_each f (x # xs) acc =
     (case f x of Inl e \<Rightarrow> Inl e | Inr ys \<Rightarrow> extend_each f xs (acc @ ys))"

section \<open>Strings and POSIX paths\<close>

text \<open>\<open>s.startswith(p)\<close>, \<open>s.endswith(p)\<close>, \<open>p in s\<close> and \<open>sep.join(xs)\<close>.\<close>

definition startswith :: "string \<Rightarrow> string \<Rightarrow> bool" where
  "startswith s p = (take (length p) s = p)"

definition endswith :: "string \<Rightarrow> string \<Rightarrow> bool" where
  "endswith s p = (length p \<le> length s \<and> drop (length s - length p) s = p)"

fun contains :: "string \<Rightarrow> string \<Rightarrow> bool" where
  "contains [] p = (p = [])"
| "contains (c # s) p = (startswith (c # s) p \<or> contains s p)"

fun join_sep :: "string \<Rightarrow> string list \<Rightarrow> string" where
  "join_sep sep [] = []"
| "join_sep sep [x] = x"
| "join_sep sep (x # y # ys) = x @ sep @ join_sep sep (y # ys)"

text \<open>
  \<open>s.split(sep)\<close> for a separator of one character: the pieces between the separators,
  at least one piece, empty pieces kept.
\<close>

fun split_sep :: "char \<Rightarrow> string \<Rightarrow> string list" where
  "split_sep sep [] = [[]]"
| "split_sep sep (c # cs) =
     (if c = sep then [] # split_sep sep cs
      else (case split_sep sep cs of [] \<Rightarrow> [[c]] | w # ws \<Rightarrow> (c # w) # ws))"

text \<open>
  \<open>posixpath.join(a, b)\<close>: an absolute \<open>b\<close> replaces \<open>a\<close>; otherwise the two are put
  together with one separator between them.
\<close>

definition path_join :: "string \<Rightarrow> string \<Rightarrow> string" where
  "path_join a b =
     (if startswith b ''/'' then b
      else if a = [] then b
      else if endswith a ''/'' then a @ b
      else a @ ''/'' @ b)"

text \<open>
  \<open>posixpath.normpath\<close>. The loop over the components keeps \<open>new_comps\<close>:
  \<^verbatim>\<open>
  for comp in comps:
      if comp in ('', '.'):
          continue
      if (comp != '..' or (not initial_slashes and not new_comps) or
           (new_comps and new_comps[-1] == '..')):
          new_comps.append(comp)
      elif new_comps:
          new_comps.pop()
  \<close>
\<close>

definition norm_step :: "nat \<Rightarrow> string list \<Rightarrow> string \<Rightarrow> string list" where
  "norm_step initial_slashes new_comps part =
     (if part = [] then new_comps
      else if part = ''.'' then new_comps
      else if part = ''..'' then
        (if initial_slashes = 0 \<and> new_comps = [] then new_comps @ [part]
         else if new_comps = [] then new_comps
         else if last new_comps = ''..'' then new_comps @ [part]
         else butlast new_comps)
      else new_comps @ [part])"

definition initial_slashes :: "string \<Rightarrow> nat" where
  "initial_slashes path =
     (if startswith path ''/'' then
        (if startswith path ''//'' \<and> \<not> startswith path ''///'' then 2 else 1)
      else 0)"

definition normpath :: "string \<Rightarrow> string" where
  "normpath path =
     (if path = [] then ''.''
      else
        (let comps = foldl (norm_step (initial_slashes path)) [] (split_sep CHR ''/'' path);
             p = replicate (initial_slashes path) CHR ''/'' @ join_sep ''/'' comps
         in if p = [] then ''.'' else p))"

text \<open>\<open>posixpath.abspath\<close>, with the current directory of the process as \<open>cwd\<close>.\<close>

definition abspath :: "string \<Rightarrow> string \<Rightarrow> string" where
  "abspath cwd path = normpath (if startswith path ''/'' then path else path_join cwd path)"

text \<open>
  \<open>os.path.commonprefix([a, b])\<close> compares the smaller and the larger of the two strings
  character by character:
  \<^verbatim>\<open>
  s1 = min(m)
  s2 = max(m)
  for i, c in enumerate(s1):
      if c != s2[i]:
          return s1[:i]
  return s1
  \<close>
\<close>

fun commonprefix_loop :: "string \<Rightarrow> string \<Rightarrow> string" where
  "commonprefix_loop [] s2 = []"
| "commonprefix_loop (c # s1) [] = []"
| "commonprefix_loop (c # s1) (d # s2) = (if c \<noteq> d then [] else c # commonprefix_loop s1 s2)"

definition commonprefix :: "string \<Rightarrow> string \<Rightarrow> string" where
  "commonprefix a b = commonprefix_loop (min a b) (max a b)"

text \<open>\<open>os.path.split(p)[1]\<close>: what follows the last separator.\<close>

definition basename :: "string \<Rightarrow> string" where
  "basename p = last (split_sep CHR ''/'' p)"

text \<open>
  A path lies within a directory when the components of the directory, both paths made
  absolute and normal, are the first components of the path.
\<close>

definition path_within :: "string \<Rightarrow> string \<Rightarrow> string \<Rightarrow> bool" where
  "path_within cwd directory target =
     (let d = filter (\<lambda>c. c \<noteq> []) (split_sep CHR ''/'' (abspath cwd directory));
          t = filter (\<lambda>c. c \<noteq> []) (split_sep CHR ''/'' (abspath cwd target))
      in take (length d) t = d)"

section \<open>cerbero.utils\<close>

text \<open>
  \<^verbatim>\<open>
  def remove_list_duplicates(seq):
      seen = set()
      seen_add = seen.add
      return [x for x in seq if x not in seen and not seen_add(x)]
  \<close>
  The comprehension keeps an element when it is not yet in \<open>seen\<close> and adds it then
  (\<open>set.add\<close> returns \<open>None\<close>, so \<open>not seen_add(x)\<close> is true).
\<close>

fun remove_dups_seen :: "'a set \<Rightarrow> 'a list \<Rightarrow> 'a list" where
  "remove_dups_seen seen [] = []"
| "remove_dups_seen seen (x # xs) =
     (if x \<notin> seen then x # remove_dups_seen (insert x seen) xs
      else remove_dups_seen seen xs)"

definition remove_list_duplicates :: "'a list \<Rightarrow> 'a list" where
  "remove_list_duplicates seq = remove_dups_seen {} seq"

text \<open>
  What the specification asks of it, in its own words: every element once, at the place
  of its first occurrence.
\<close>

fun first_occurrences :: "'a list \<Rightarrow> 'a list" where
  "first_occurrences [] = []"
| "first_occurrences (x # xs) = x # removeAll x (first_occurrences xs)"

section \<open>cerbero.packages.package: PackageBase\<close>

text \<open>
  \<open>PackageType\<close> (in \<open>cerbero/packages/__init__.py\<close>) holds the markers that
  \<open>__getattribute__\<close> appends to the stored name: the empty string for the runtime
  package and \<open>-devel\<close> for the development package, the suffixes \<open>rpm.py\<close> builds again
  in \<open>_get_requires\<close>. A mode is such a string. With the empty marker a descriptor in the
  runtime mode reads its name as it is stored, which is the name the store knows it by
  (\<open>self.store.get_package_deps(self.name, True)\<close>).
\<close>

type_synonym PackageType = string

definition RUNTIME :: PackageType where
  "RUNTIME = []"

definition DEVEL :: PackageType where
  "DEVEL = ''-devel''"

text \<open>The fields of the build configuration that the modelled code reads.\<close>

record config =
  target_platform :: string
  target_distro :: string
  target_distro_version :: string
  target_arch :: string
  distro :: string
  distro_version :: string

record PackageBase =
  name :: string
  shortdesc :: string
  uuid :: "string option"
  sys_deps :: "string \<rightharpoonup> string list"
  sys_deps_devel :: "string \<rightharpoonup> string list"
  package_mode :: PackageType

definition set_mode :: "'a PackageBase_scheme \<Rightarrow> PackageType \<Rightarrow> 'a PackageBase_scheme" where
  "set_mode self package_type = self\<lparr>package_mode := package_type\<rparr>"

text \<open>
  \<open>__getattribute__\<close> computes what a read of \<open>name\<close>, \<open>shortdesc\<close> and \<open>uuid\<close> returns
  from the stored field and the current mode. In the development mode the first character
  of a uuid is replaced (\<open>uuid[0]\<close> of an empty string raises \<open>IndexError\<close>).
\<close>

definition read_name :: "'a PackageBase_scheme \<Rightarrow> string" where
  "read_name self = name self @ package_mode self"

definition read_shortdesc :: "'a PackageBase_scheme \<Rightarrow> string" where
  "read_shortdesc self =
     (if package_mode self = DEVEL then shortdesc self @ '' (Development Files)''
      else shortdesc self)"

definition read_uuid :: "'a PackageBase_scheme \<Rightarrow> error + string option" where
  "read_uuid self =
     (if package_mode self = DEVEL then
        (case uuid self of
           None \<Rightarrow> Inr None
         | Some [] \<Rightarrow> Inl IndexError
         | Some (c # cs) \<Rightarrow>
             Inr (Some ((if c \<noteq> CHR ''0'' then CHR ''0'' else CHR ''1'') # cs)))
      else Inr (uuid self))"

text \<open>
  \<^verbatim>\<open>
  def get_sys_deps(self, package_mode=None):
      package_mode = package_mode or self.package_mode
      if package_mode == PackageType.RUNTIME:
          sys_deps = self.sys_deps
      if package_mode == PackageType.DEVEL:
          sys_deps = self.sys_deps_devel
      if self.config.target_distro_version in sys_deps:
          return sys_deps[self.config.target_distro_version]
      if self.config.target_distro in sys_deps:
          return sys_deps[self.config.target_distro]
      return []
  \<close>
  \<open>a or b\<close> is \<open>b\<close> when \<open>a\<close> is \<open>None\<close> or the empty string. When neither test
  binds \<open>sys_deps\<close>, its use raises \<open>UnboundLocalError\<close>.
\<close>

definition py_or :: "string option \<Rightarrow> string \<Rightarrow> string" where
  "py_or a b = (case a of None \<Rightarrow> b | Some s \<Rightarrow> if s = [] then b else s)"

definition select_sys_deps ::
  "'a PackageBase_scheme \<Rightarrow> PackageType \<Rightarrow> (string \<rightharpoonup> string list) option" where
  "select_sys_deps self m =
     (let sd = (if m = RUNTIME then Some (sys_deps self) else None)
      in if m = DEVEL then Some (sys_deps_devel self) else sd)"

definition lookup_sys_deps :: "config \<Rightarrow> (string \<rightharpoonup> string list) \<Rightarrow> string list" where
  "lookup_sys_deps cfg sd =
     (case sd (target_distro_version cfg) of
        Some v \<Rightarrow> v
      | None \<Rightarrow> (case sd (target_distro cfg) of Some v \<Rightarrow> v | None \<Rightarrow> []))"

definition get_sys_deps ::
  "config \<Rightarrow> 'a PackageBase_scheme \<Rightarrow> PackageType option \<Rightarrow> error + string list" where
  "get_sys_deps cfg self arg =
     (case select_sys_deps self (py_or arg (package_mode self)) of
        None \<Rightarrow> Inl UnboundLocalError
      | Some sd \<Rightarrow> Inr (lookup_sys_deps cfg sd))"

section \<open>cerbero.packages.package: MetaPackage\<close>

text \<open>
  The package store (cerbero.packages.packagesstore) and the recipe provider
  (cerbero.build.cookbook) are collaborators reached through method calls. A descriptor
  the store returns is a value of a type \<open>'p\<close>, and a method called on it is a function
  on \<open>'p\<close> given to the caller (dynamic dispatch): \<open>rd\<close> below is
  \<open>package.recipes_dependencies()\<close> of the children. The store is asked with the name as
  read, \<open>self.name\<close>.
  \<^verbatim>\<open>
  def recipes_dependencies(self):
      deps = []
      for package in self.store.get_package_deps(self.name, True):
          deps.extend(package.recipes_dependencies())
      return remove_list_duplicates(deps)
  \<close>
\<close>

definition MetaPackage_recipes_dependencies ::
  "(string \<Rightarrow> bool \<Rightarrow> error + 'p list) \<Rightarrow> ('p \<Rightarrow> error + string list) \<Rightarrow>
   'a PackageBase_scheme \<Rightarrow> error + string list" where
  "MetaPackage_recipes_dependencies store_deps rd self =
     bind_err (store_deps (read_name self) True) (\<lambda>children.
     bind_err (extend_each rd children []) (\<lambda>deps.
     Inr (remove_list_duplicates deps)))"

section \<open>cerbero.packages.package: Package\<close>

text \<open>
  What a recipe of the cookbook answers: \<open>dist_files_list()\<close>, \<open>devel_files_list()\<close>,
  \<open>files_list_by_categories(categories)\<close>, \<open>files_list()\<close> and \<open>libraries()\<close>.
  \<open>cookbook.get_recipe(name)\<close> raises for a name the cookbook does not know.
\<close>

record recipe =
  dist_files_list :: "string list"
  devel_files_list :: "string list"
  files_list_by_categories :: "string list \<Rightarrow> string list"
  files_list :: "string list"
  libraries :: "string list"

type_synonym cookbook = "string \<Rightarrow> error + recipe"

text \<open>
  \<open>FilesProvider.LIBS_CAT\<close>, the category of the libraries; the comments of
  \<open>devel_files_list\<close> call it the \<open>libs\<close> category.
\<close>

definition LIBS_CAT :: string where
  "LIBS_CAT = ''libs''"

record Package = PackageBase +
  deps :: "string list"
  files :: "string list"
  platform_files :: "string \<rightharpoonup> string list"
  files_devel :: "string list"
  platform_files_devel :: "string \<rightharpoonup> string list"

text \<open>
  A dictionary that is iterated is a list of keys with their values, each key once, in the
  order in which the keys were first stored; \<open>d[k] = v\<close> replaces the value of a key that
  is there and puts a new key last.
\<close>

fun dict_set :: "('k \<times> 'v) list \<Rightarrow> 'k \<Rightarrow> 'v \<Rightarrow> ('k \<times> 'v) list" where
  "dict_set [] k v = [(k, v)]"
| "dict_set ((k', v') # d) k v =
     (if k' = k then (k, v) # d else (k', v') # dict_set d k v)"

text \<open>
  \<^verbatim>\<open>
  def load_files(self):
      self._files = self.files + \\
              self.platform_files.get(self.config.target_platform, [])
      self._files_devel = self.files_devel + \\
              self.platform_files_devel.get(self.config.target_platform, [])
      self._parse_files()

  def _parse_files(self):
      self._recipes_files = {}
      for r in self._files:
          l = r.split(':')
          self._recipes_files[l[0]] = l[1:]
      self._recipes_files_devel = {}
      for r in self._files_devel:
          l = r.split(':')
          self._recipes_files_devel[l[0]] = l[1:]
  \<close>
  The four attributes that \<open>load_files\<close> sets are the record \<open>loaded\<close>.
\<close>

record loaded =
  loaded_files :: "string list"
  loaded_files_devel :: "string list"
  recipes_files :: "(string \<times> string list) list"
  recipes_files_devel :: "(string \<times> string list) list"

definition parse_entry :: "string \<Rightarrow> string \<times> string list" where
  "parse_entry r = (case split_sep CHR '':'' r of [] \<Rightarrow> ([], []) | x # cs \<Rightarrow> (x, cs))"

definition parse_files :: "string list \<Rightarrow> (string \<times> string list) list" where
  "parse_files entries =
     foldl (\<lambda>d r. dict_set d (fst (parse_entry r)) (snd (parse_entry r))) [] entries"

definition dict_get_default :: "('k \<rightharpoonup> 'v list) \<Rightarrow> 'k \<Rightarrow> 'v list" where
  "dict_get_default d k = (case d k of None \<Rightarrow> [] | Some v \<Rightarrow> v)"

definition load_files :: "config \<Rightarrow> 'a Package_scheme \<Rightarrow> loaded" where
  "load_files cfg self =
     (let fs = files self @ dict_get_default (platform_files self) (target_platform cfg);
          fsd = files_devel self @ dict_get_default (platform_files_devel self) (target_platform cfg)
      in \<lparr>loaded_files = fs, loaded_files_devel = fsd,
          recipes_files = parse_files fs, recipes_files_devel = parse_files fsd\<rparr>)"

text \<open>
  The two dictionaries are built by \<open>_parse_files\<close> as \<open>{}\<close>, plain \<open>dict\<close> objects. The
  package module imports \<open>cerbero.utils\<close>, which defines coroutines with \<open>async def\<close> and
  \<open>await\<close>, so the code is loaded by Python 3 only, and there a \<open>dict\<close> has the methods
  \<open>items\<close>, \<open>keys\<close> and \<open>values\<close> but no \<open>iteritems\<close>: evaluating \<open>d.iteritems\<close> raises
  \<open>AttributeError\<close> for every dictionary, before the loop that was to run over the result
  begins.
\<close>

definition iteritems :: "('k \<times> 'v) list \<Rightarrow> error + ('k \<times> 'v) list" where
  "iteritems d = Inl AttributeError"

text \<open>
  \<^verbatim>\<open>
  def files_list(self):
      files = []
      for recipe_name, categories in self._recipes_files.iteritems():
          recipe = self.cookbook.get_recipe(recipe_name)
          if len(categories) == 0:
              rfiles = recipe.dist_files_list()
          else:
              rfiles = recipe.files_list_by_categories(categories)
          files.extend(rfiles)
      return sorted(files)
  \<close>
  \<open>runtime_entry_files\<close> is the body of the loop for one entry, \<open>files_list_loop\<close> the loop
  over the pairs it is given followed by the \<open>return\<close>, and \<open>Package_files_list\<close> the
  method: the iterable is evaluated first, and the loop runs if that returns.
\<close>

definition runtime_entry_files :: "cookbook \<Rightarrow> string \<times> string list \<Rightarrow> error + string list" where
  "runtime_entry_files ck entry =
     (case ck (fst entry) of
        Inl e \<Rightarrow> Inl e
      | Inr recipe \<Rightarrow>
          Inr (if length (snd entry) = 0 then dist_files_list recipe
               else files_list_by_categories recipe (snd entry)))"

definition files_list_loop :: "cookbook \<Rightarrow> (string \<times> string list) list \<Rightarrow> error + string list" where
  "files_list_loop ck pairs =
     (case extend_each (runtime_entry_files ck) pairs [] of
        Inl e \<Rightarrow> Inl e
      | Inr fs \<Rightarrow> Inr (sort fs))"

definition Package_files_list :: "cookbook \<Rightarrow> loaded \<Rightarrow> error + string list" where
  "Package_files_list ck self =
     (case iteritems (recipes_files self) of
        Inl e \<Rightarrow> Inl e
      | Inr pairs \<Rightarrow> files_list_loop ck pairs)"

text \<open>
  \<^verbatim>\<open>
  def devel_files_list(self):
      files = []
      for recipe, categories in self._recipes_files.iteritems():
          # only add development files for recipe from which used the 'libs'
          # category
          if len(categories) == 0 or FilesProvider.LIBS_CAT in categories:
              rfiles = self.cookbook.get_recipe(recipe).devel_files_list()
              files.extend(rfiles)
      for recipe, categories in self._recipes_files_devel.iteritems():
          recipe = self.cookbook.get_recipe(recipe)
          if not categories:
              rfiles = recipe.devel_files_list()
          else:
              rfiles = recipe.files_list_by_categories(categories)
          files.extend(rfiles)
      return sorted(files)
  \<close>
  \<open>devel_files_list_loops\<close> is the two loops over the pairs they are given, followed by
  the \<open>return\<close>; the method evaluates the first iterable, runs the first loop, evaluates
  the second iterable and runs the second loop.
\<close>

definition exposes_libraries :: "string \<times> string list \<Rightarrow> bool" where
  "exposes_libraries entry = (length (snd entry) = 0 \<or> LIBS_CAT \<in> set (snd entry))"

definition runtime_entry_devel_files :: "cookbook \<Rightarrow> string \<times> string list \<Rightarrow> error + string list" where
  "runtime_entry_devel_files ck entry =
     (if exposes_libraries entry then
        (case ck (fst entry) of Inl e \<Rightarrow> Inl e | Inr recipe \<Rightarrow> Inr (devel_files_list recipe))
      else Inr [])"

definition devel_entry_files :: "cookbook \<Rightarrow> string \<times> string list \<Rightarrow> error + string list" where
  "devel_entry_files ck entry =
     (case ck (fst entry) of
        Inl e \<Rightarrow> Inl e
      | Inr recipe \<Rightarrow>
          Inr (if snd entry = [] then devel_files_list recipe
               else files_list_by_categories recipe (snd entry)))"

definition devel_files_list_loops ::
  "cookbook \<Rightarrow> (string \<times> string list) list \<Rightarrow> error + (string \<times> string list) list \<Rightarrow>
   error + string list" where
  "devel_files_list_loops ck pairs devel_pairs =
     (case extend_each (runtime_entry_devel_files ck) pairs [] of
        Inl e \<Rightarrow> Inl e
      | Inr fs1 \<Rightarrow>
          (case devel_pairs of
             Inl e \<Rightarrow> Inl e
           | Inr dps \<Rightarrow>
               (case extend_each (devel_entry_files ck) dps fs1 of
                  Inl e \<Rightarrow> Inl e
                | Inr fs2 \<Rightarrow> Inr (sort fs2))))"

definition Package_devel_files_list :: "cookbook \<Rightarrow> loaded \<Rightarrow> error + string list" where
  "Package_devel_files_list ck self =
     (case iteritems (recipes_files self) of
        Inl e \<Rightarrow> Inl e
      | Inr pairs \<Rightarrow> devel_files_list_loops ck pairs (iteritems (recipes_files_devel self)))"

definition Package_all_files_list :: "cookbook \<Rightarrow> loaded \<Rightarrow> error + string list" where
  "Package_all_files_list ck self =
     (case Package_files_list ck self of
        Inl e \<Rightarrow> Inl e
      | Inr fs \<Rightarrow>
          (case Package_devel_files_list ck self of
             Inl e \<Rightarrow> Inl e
           | Inr dfs \<Rightarrow> Inr (sort (fs @ dfs))))"

text \<open>
  The selection in the words of the specification: for an entry with no category the
  recipe's whole list (of distribution files for the runtime list, of development files
  for the development list), otherwise the files of the named categories.
\<close>

definition selected_files :: "(string \<Rightarrow> recipe) \<Rightarrow> string \<times> string list \<Rightarrow> string list" where
  "selected_files rcp entry =
     (if snd entry = [] then dist_files_list (rcp (fst entry))
      else files_list_by_categories (rcp (fst entry)) (snd entry))"

definition selected_devel_files :: "(string \<Rightarrow> recipe) \<Rightarrow> string \<times> string list \<Rightarrow> string list" where
  "selected_devel_files rcp entry =
     (if snd entry = [] then devel_files_list (rcp (fst entry))
      else files_list_by_categories (rcp (fst entry)) (snd entry))"

section \<open>cerbero.packages.package: App\<close>

text \<open>
  An application has the name of its recipe, the flag \<open>embed_deps\<close>, its \<open>deps\<close> and,
  where a subclass declares it, \<open>platform_deps\<close>. \<open>__getattribute__\<close> answers a read of
  \<open>deps\<close> with the stored list followed by the list of the target platform.
\<close>

record App = PackageBase +
  app_recipe :: "string option"
  embed_deps :: bool
  app_deps :: "string list"
  platform_deps :: "(string \<rightharpoonup> string list) option"

definition read_deps :: "config \<Rightarrow> 'a App_scheme \<Rightarrow> string list" where
  "read_deps cfg self =
     (case platform_deps self of
        None \<Rightarrow> app_deps self
      | Some platform_attr \<Rightarrow>
          (case platform_attr (target_platform cfg) of
             None \<Rightarrow> app_deps self
           | Some platform_list \<Rightarrow> app_deps self @ platform_list))"

text \<open>
  What an application asks of the store and the cookbook: \<open>store.get_package(name)\<close>,
  \<open>store.get_package_deps(package)\<close>, the methods \<open>recipes_dependencies()\<close> and
  \<open>files_list()\<close> of a descriptor the store returned, \<open>cookbook.list_recipe_deps\<close>, and the
  application's recipe as \<open>__init__\<close> fetched it.
\<close>

record 'p collaborators =
  get_package :: "string \<Rightarrow> error + 'p"
  get_package_deps :: "'p \<Rightarrow> error + 'p list"
  package_recipes_dependencies :: "'p \<Rightarrow> error + string list"
  package_files_list :: "'p \<Rightarrow> error + string list"
  list_recipe_deps :: "string option \<Rightarrow> error + recipe list"
  fetched_app_recipe :: recipe

text \<open>
  \<^verbatim>\<open>
  def recipes_dependencies(self):
      deps = []
      for dep in self.deps:
          package = self.store.get_package(dep)
          deps.extend(package.recipes_dependencies())
      if self.app_recipe is not None:
          deps.append(self.app_recipe)
      return list(set(deps))
  \<close>
  \<open>list(set(deps))\<close> holds every element once, in an order the language leaves open: the
  result is the set.
\<close>

definition dep_recipes_dependencies :: "'p collaborators \<Rightarrow> string \<Rightarrow> error + string list" where
  "dep_recipes_dependencies w dep =
     (case get_package w dep of
        Inl e \<Rightarrow> Inl e
      | Inr package \<Rightarrow> package_recipes_dependencies w package)"

definition App_recipes_dependencies ::
  "config \<Rightarrow> 'p collaborators \<Rightarrow> 'a App_scheme \<Rightarrow> error + string set" where
  "App_recipes_dependencies cfg w self =
     (case extend_each (dep_recipes_dependencies w) (read_deps cfg self) [] of
        Inl e \<Rightarrow> Inl e
      | Inr ds \<Rightarrow>
          Inr (set (case app_recipe self of None \<Rightarrow> ds | Some r \<Rightarrow> ds @ [r])))"

text \<open>
  \<^verbatim>\<open>
  def files_list(self):
      files = []
      if self.embed_deps:
          packages_deps = [self.store.get_package(x) for x in self.deps]
          for package in packages_deps:
              packages_deps.extend(self.store.get_package_deps(package))
          packages_deps = list(set(packages_deps))
          for package in packages_deps:
              files.extend(package.files_list())
          for recipe in self.cookbook.list_recipe_deps(self.app_recipe):
              files.extend(recipe.libraries())
      files.extend(self._app_recipe.files_list())
      files.sort()
      return files
  \<close>
  The first loop runs over a list that grows while it runs, and does not end when the
  packages depend on each other in a circle: it is given fuel, and \<open>None\<close> is the run
  that does not return. The order of \<open>list(set(packages_deps))\<close> does not show in the sorted
  result.
\<close>

fun resolve_all :: "('a \<Rightarrow> error + 'b) \<Rightarrow> 'a list \<Rightarrow> error + 'b list" where
  "resolve_all f [] = Inr []"
| "resolve_all f (x # xs) =
     (case f x of
        Inl e \<Rightarrow> Inl e
      | Inr y \<Rightarrow> (case resolve_all f xs of Inl e \<Rightarrow> Inl e | Inr ys \<Rightarrow> Inr (y # ys)))"

fun grow_packages_deps ::
  "nat \<Rightarrow> ('p \<Rightarrow> error + 'p list) \<Rightarrow> 'p list \<Rightarrow> nat \<Rightarrow> (error + 'p list) option" where
  "grow_packages_deps 0 deps_of ps i = None"
| "grow_packages_deps (Suc fuel) deps_of ps i =
     (if i < length ps then
        (case deps_of (ps ! i) of
           Inl e \<Rightarrow> Some (Inl e)
         | Inr ds \<Rightarrow> grow_packages_deps fuel deps_of (ps @ ds) (Suc i))
      else Some (Inr ps))"

definition embedded_files :: "'p collaborators \<Rightarrow> string option \<Rightarrow> 'p list \<Rightarrow> error + string list" where
  "embedded_files w recipe_name packages_deps =
     (case extend_each (package_files_list w) (remdups packages_deps) [] of
        Inl e \<Rightarrow> Inl e
      | Inr fs \<Rightarrow>
          (case list_recipe_deps w recipe_name of
             Inl e \<Rightarrow> Inl e
           | Inr rs \<Rightarrow> extend_each (\<lambda>r. Inr (libraries r)) rs fs))"

definition App_files_list ::
  "nat \<Rightarrow> config \<Rightarrow> 'p collaborators \<Rightarrow> 'a App_scheme \<Rightarrow> (error + string list) option" where
  "App_files_list fuel cfg w self =
     (if embed_deps self then
        (case resolve_all (get_package w) (read_deps cfg self) of
           Inl e \<Rightarrow> Some (Inl e)
         | Inr ps \<Rightarrow>
             (case grow_packages_deps fuel (get_package_deps w) ps 0 of
                None \<Rightarrow> None
              | Some (Inl e) \<Rightarrow> Some (Inl e)
              | Some (Inr packages_deps) \<Rightarrow>
                  (case embedded_files w (app_recipe self) packages_deps of
                     Inl e \<Rightarrow> Some (Inl e)
                   | Inr fs \<Rightarrow> Some (Inr (sort (fs @ files_list (fetched_app_recipe w)))))))
      else Some (Inr (sort (files_list (fetched_app_recipe w)))))"

text \<open>
  \<^verbatim>\<open>
  def devel_files_list(self):
      return []

  def all_files_list(self):
      return self.files_list()
  \<close>
\<close>

definition App_devel_files_list :: "'a App_scheme \<Rightarrow> string list" where
  "App_devel_files_list self = []"

definition App_all_files_list ::
  "nat \<Rightarrow> config \<Rightarrow> 'p collaborators \<Rightarrow> 'a App_scheme \<Rightarrow> (error + string list) option" where
  "App_all_files_list fuel cfg w self = App_files_list fuel cfg w self"

section \<open>cerbero.packages.rpm: RPMPackager.setup_source\<close>

text \<open>
  A file system is the list of the files that exist, each under its absolute, normal
  path, with what is stored there: plain data, or a tar archive with its members (name
  and content, a member being a regular file). A directory is not listed: it exists when
  a file lies below it. Writing a file replaces the file at that path or adds one;
  conflicts between a file and a directory of the same path are outside this model.
\<close>

datatype node = File string | Tar "(string \<times> node) list"

type_synonym filesystem = "(string \<times> node) list"

definition remove_file :: "filesystem \<Rightarrow> string \<Rightarrow> filesystem" where
  "remove_file fs p = filter (\<lambda>e. fst e \<noteq> p) fs"

definition is_directory :: "string \<Rightarrow> filesystem \<Rightarrow> string \<Rightarrow> bool" where
  "is_directory cwd fs p =
     list_ex (\<lambda>e. path_within cwd p (fst e) \<and> fst e \<noteq> abspath cwd p) fs"

text \<open>
  \<open>tarfile.open(tarball, 'r:bz2')\<close> raises \<open>FileNotFoundError\<close> when nothing is at the
  path, \<open>IsADirectoryError\<close> for a directory and \<open>tarfile.ReadError\<close> for a file that is
  not an archive.
\<close>

definition open_archive :: "string \<Rightarrow> filesystem \<Rightarrow> string \<Rightarrow> error + (string \<times> node) list" where
  "open_archive cwd fs tarball =
     (case map_of fs (abspath cwd tarball) of
        None \<Rightarrow> Inl (if is_directory cwd fs tarball then IsADirectoryError else FileNotFoundError)
      | Some (File d) \<Rightarrow> Inl ReadError
      | Some (Tar members) \<Rightarrow> Inr members)"

text \<open>
  \<^verbatim>\<open>
  def is_within_directory(directory, target):
      abs_directory = os.path.abspath(directory)
      abs_target = os.path.abspath(target)
      prefix = os.path.commonprefix([abs_directory, abs_target])
      return prefix == abs_directory

  def safe_extract(tar, path=".", members=None, *, numeric_owner=False):
      for member in tar.getmembers():
          member_path = os.path.join(path, member.name)
          if not is_within_directory(path, member_path):
              raise Exception("Attempted Path Traversal in Tar File")
      tar.extractall(path, members, numeric_owner=numeric_owner)
  \<close>
  The exception of the check is \<open>PathTraversal\<close>. \<open>tar.extractall(path)\<close> writes every
  member at \<open>os.path.join(path, member.name)\<close>, as it does when it is called without an
  extraction filter of its own (the default before Python 3.14).
\<close>

definition is_within_directory :: "string \<Rightarrow> string \<Rightarrow> string \<Rightarrow> bool" where
  "is_within_directory cwd directory target =
     (commonprefix (abspath cwd directory) (abspath cwd target) = abspath cwd directory)"

fun check_members :: "string \<Rightarrow> string \<Rightarrow> (string \<times> node) list \<Rightarrow> error + unit" where
  "check_members cwd path [] = Inr ()"
| "check_members cwd path (member # members) =
     (if \<not> is_within_directory cwd path (path_join path (fst member)) then Inl PathTraversal
      else check_members cwd path members)"

fun extractall :: "string \<Rightarrow> string \<Rightarrow> (string \<times> node) list \<Rightarrow> filesystem \<Rightarrow> filesystem" where
  "extractall cwd path [] fs = fs"
| "extractall cwd path (member # members) fs =
     extractall cwd path members
       (dict_set fs (abspath cwd (path_join path (fst member))) (snd member))"

definition safe_extract ::
  "string \<Rightarrow> string \<Rightarrow> (string \<times> node) list \<Rightarrow> filesystem \<Rightarrow> filesystem \<times> (error + unit)" where
  "safe_extract cwd path members fs =
     (case check_members cwd path members of
        Inl e \<Rightarrow> (fs, Inl e)
      | Inr u \<Rightarrow> (extractall cwd path members fs, Inr ()))"

text \<open>
  \<open>tar.add(root_path, arcname)\<close> packs the tree at \<open>root_path\<close>: it raises
  \<open>FileNotFoundError\<close> when nothing is there; otherwise it walks the tree, the entries
  of every directory in sorted order, and names a file by \<open>arcname\<close> joined with the
  file's path relative to \<open>root_path\<close>, without leading separators. It does not pack the
  archive it is writing.
\<close>

definition components :: "string \<Rightarrow> string list" where
  "components p = filter (\<lambda>c. c \<noteq> []) (split_sep CHR ''/'' p)"

definition member_name :: "string \<Rightarrow> string \<Rightarrow> string \<Rightarrow> string \<Rightarrow> string" where
  "member_name cwd root arcname p =
     (let rel = drop (length (components (abspath cwd root))) (components (abspath cwd p))
      in dropWhile (\<lambda>c. c = CHR ''/'')
           (if rel = [] then arcname else path_join arcname (join_sep ''/'' rel)))"

definition tree_members :: "string \<Rightarrow> string \<Rightarrow> string \<Rightarrow> filesystem \<Rightarrow> (string \<times> node) list" where
  "tree_members cwd root arcname fs =
     map (\<lambda>e. (member_name cwd root arcname (fst e), snd e))
       (sort_key (\<lambda>e. components (fst e)) (filter (\<lambda>e. path_within cwd root (fst e)) fs))"

text \<open>
  \<open>shutil.rmtree(root_path)\<close> removes the directory with all that lies below it, and
  raises \<open>NotADirectoryError\<close> when a file is at the path.
\<close>

definition rmtree :: "string \<Rightarrow> string \<Rightarrow> filesystem \<Rightarrow> filesystem" where
  "rmtree cwd root fs = filter (\<lambda>e. \<not> path_within cwd root (fst e)) fs"

text \<open>
  \<^verbatim>\<open>
  def setup_source(self, tarball, tmpdir, packagedir, srcdir):
      with tarfile.open(tarball, 'r:bz2') as tar:
          ...
          safe_extract(tar, srcdir)
      os.remove(tarball)

      root_path = os.path.join(srcdir, self.full_package_name)
      self.package.pre_build(root_path)

      tarname = os.path.split(tarball)[1]
      if tarname.endswith('.bz2'):
          tarname = tarname[:-4]

      with tarfile.open(os.path.join(srcdir, tarname), 'w') as tar:
          tar.add(root_path, self.full_package_name)

      shutil.rmtree(root_path)
      return tarname
  \<close>
  \<open>pre_build\<close> is a method of the descriptor \<open>self.package\<close>. The classes of
  cerbero.packages.package do not define it: it is \<open>None\<close> for a descriptor of these
  classes, and reading the attribute raises \<open>AttributeError\<close>; the class of a descriptor
  that defines it gives the method, which acts on the file system and may raise.
  \<open>tarfile.open(path, 'w')\<close> creates an empty archive at the path, which stays behind
  when \<open>tar.add\<close> raises.
\<close>

type_synonym hook = "string \<Rightarrow> filesystem \<Rightarrow> filesystem \<times> (error + unit)"

definition pack_tree ::
  "string \<Rightarrow> string \<Rightarrow> string \<Rightarrow> string \<Rightarrow> filesystem \<Rightarrow> filesystem \<times> (error + unit)" where
  "pack_tree cwd archive root arcname fs =
     (if is_directory cwd fs archive then (fs, Inl IsADirectoryError)
      else
        (let opened = dict_set fs (abspath cwd archive) (Tar [])
         in if filter (\<lambda>e. path_within cwd root (fst e)) opened = []
            then (opened, Inl FileNotFoundError)
            else (dict_set fs (abspath cwd archive)
                    (Tar (tree_members cwd root arcname (remove_file fs (abspath cwd archive)))),
                  Inr ())))"

definition setup_source ::
  "string \<Rightarrow> hook option \<Rightarrow> string \<Rightarrow> string \<Rightarrow> string \<Rightarrow> filesystem \<Rightarrow>
   filesystem \<times> (error + string)" where
  "setup_source cwd pre_build full_package_name tarball srcdir fs =
     (case open_archive cwd fs tarball of
        Inl e \<Rightarrow> (fs, Inl e)
      | Inr members \<Rightarrow>
          (case safe_extract cwd srcdir members fs of
             (fs1, Inl e) \<Rightarrow> (fs1, Inl e)
           | (fs1, Inr u) \<Rightarrow>
               (let fs2 = remove_file fs1 (abspath cwd tarball);
                    root_path = path_join srcdir full_package_name
                in case pre_build of
                     None \<Rightarrow> (fs2, Inl AttributeError)
                   | Some method \<Rightarrow>
                       (case method root_path fs2 of
                          (fs3, Inl e) \<Rightarrow> (fs3, Inl e)
                        | (fs3, Inr u) \<Rightarrow>
                            (let tarname = (if endswith (basename tarball) ''.bz2''
                                            then take (length (basename tarball) - 4) (basename tarball)
                                            else basename tarball)
                             in case pack_tree cwd (path_join srcdir tarname) root_path
                                       full_package_name fs3 of
                                  (fs4, Inl e) \<Rightarrow> (fs4, Inl e)
                                | (fs4, Inr u) \<Rightarrow>
                                    (if map_of fs4 (abspath cwd root_path) \<noteq> None
                                     then (fs4, Inl NotADirectoryError)
                                     else (rmtree cwd root_path fs4, Inr tarname)))))))"

section \<open>String formatting\<close>

text \<open>
  \<open>template % mapping\<close>, the \<open>%\<close> operator of \<open>str\<close> with a dictionary on the right, whose
  keys and values are strings, as CPython 3.7 and later evaluate it (\<open>PyUnicode_Format\<close>).
  The dictionary is the list of its keys and values in the order of insertion. A character
  is a code point below 256.

  The template is read from left to right, one character at a time. Outside a directive a
  character is copied. A directive is \<open>%\<close>, then an optional key in parentheses, flags
  (\<open>-\<close>, \<open>+\<close>, space, \<open>#\<close>, \<open>0\<close>), a width, a precision after a dot, one length modifier
  (\<open>h\<close>, \<open>l\<close>, \<open>L\<close>), and the conversion character; \<open>%%\<close> is a percent sign.

  A directive formats the next argument. Before any key the next argument is the whole
  dictionary; a key replaces it by the value stored under the key, and raises \<open>KeyError\<close>
  for a key that is not there; a conversion uses the argument up, and a conversion with
  no argument left raises \<open>TypeError\<close>.
\<close>

type_synonym dict = "(string \<times> string) list"

datatype next_arg = Whole | Value string | Spent

text \<open>
  Where the reader is: in plain text, just after a \<open>%\<close>, in a key (with the number of
  parentheses that are open and the key read so far), in the flags (with whether \<open>-\<close> was
  among them), in the digits of the width, just after the dot, in the digits of the
  precision, or after a length modifier.
\<close>

datatype format_state =
    Text
  | Start
  | InKey nat string
  | Flags bool
  | Width bool nat
  | Dot bool nat
  | Prec bool nat nat
  | Conv bool nat "nat option"

text \<open>
  What one character does: the formatting raises, the reader goes on in another state, or
  a text is written and the reader is back in plain text.
\<close>

datatype step = Fail error | Goto next_arg format_state | Emit string next_arg

definition prepend :: "string \<Rightarrow> error + string \<Rightarrow> error + string" where
  "prepend v r = (case r of Inl e \<Rightarrow> Inl e | Inr t \<Rightarrow> Inr (v @ t))"

text \<open>
  \<open>repr(s)\<close> of a string: in double quotes if the string has a single quote and no double
  quote, in single quotes otherwise; the quote and the backslash are escaped, tab, line
  feed and carriage return are \<open>\\t\<close>, \<open>\\n\<close> and \<open>\\r\<close>, and any other character that is
  not printable is \<open>\\x\<close> and two hexadecimal digits. \<open>ascii(s)\<close> escapes, in \<open>repr(s)\<close>,
  the characters from 128 on in the same way. \<open>str(d)\<close> and \<open>repr(d)\<close> of a dictionary
  list \<open>repr(key): repr(value)\<close> in braces.
\<close>

definition hex_digit :: "nat \<Rightarrow> char" where
  "hex_digit n = ''0123456789abcdef'' ! n"

definition hex2 :: "char \<Rightarrow> string" where
  "hex2 c = [hex_digit (of_char c div 16), hex_digit (of_char c mod 16)]"

definition backslash :: char where
  "backslash = CHR 0x5C"

definition single_quote :: char where
  "single_quote = CHR 0x27"

definition double_quote :: char where
  "double_quote = CHR 0x22"

definition printable :: "char \<Rightarrow> bool" where
  "printable c =
     ((32 \<le> (of_char c :: nat) \<and> (of_char c :: nat) < 127)
      \<or> (161 \<le> (of_char c :: nat) \<and> (of_char c :: nat) \<noteq> 173))"

definition repr_char :: "char \<Rightarrow> char \<Rightarrow> string" where
  "repr_char q c =
     (if c = q \<or> c = backslash then [backslash, c]
      else if c = CHR 0x09 then [backslash, CHR ''t'']
      else if c = CHR 0x0A then [backslash, CHR ''n'']
      else if c = CHR 0x0D then [backslash, CHR ''r'']
      else if printable c then [c]
      else [backslash, CHR ''x''] @ hex2 c)"

definition py_repr :: "string \<Rightarrow> string" where
  "py_repr s =
     (let q = (if single_quote \<in> set s \<and> double_quote \<notin> set s then double_quote
               else single_quote)
      in [q] @ concat (map (repr_char q) s) @ [q])"

definition ascii_char :: "char \<Rightarrow> string" where
  "ascii_char c = (if (of_char c :: nat) < 128 then [c] else [backslash, CHR ''x''] @ hex2 c)"

definition py_ascii :: "string \<Rightarrow> string" where
  "py_ascii s = concat (map ascii_char (py_repr s))"

definition dict_repr :: "dict \<Rightarrow> string" where
  "dict_repr d =
     ''{'' @ join_sep '', '' (map (\<lambda>kv. py_repr (fst kv) @ '': '' @ py_repr (snd kv)) d) @ ''}''"

definition dict_ascii :: "dict \<Rightarrow> string" where
  "dict_ascii d = concat (map ascii_char (dict_repr d))"

text \<open>
  The text of a conversion is cut to the precision, if there is one, and then filled with
  spaces to the width, on the left, or on the right after the flag \<open>-\<close>. (A text is as
  long as the width asks; CPython raises \<open>MemoryError\<close> for a width beyond the memory
  of the machine.)
\<close>

definition truncate_to :: "nat option \<Rightarrow> string \<Rightarrow> string" where
  "truncate_to p s = (case p of None \<Rightarrow> s | Some n \<Rightarrow> take n s)"

definition pad_to :: "bool \<Rightarrow> nat \<Rightarrow> string \<Rightarrow> string" where
  "pad_to ljust w s =
     (if ljust then s @ replicate (w - length s) CHR '' ''
      else replicate (w - length s) CHR '' '' @ s)"

text \<open>
  The conversion character. \<open>s\<close>, \<open>r\<close> and \<open>a\<close> write \<open>str\<close>, \<open>repr\<close> and \<open>ascii\<close> of the
  argument; the numeric conversions raise \<open>TypeError\<close> for a string and for a dictionary;
  \<open>c\<close> writes a string of one character (the precision does not cut it) and raises
  \<open>TypeError\<close> for any other argument; any other character, a second \<open>%\<close> among them,
  raises \<open>ValueError\<close> (unsupported format character).
\<close>

definition convert :: "dict \<Rightarrow> next_arg \<Rightarrow> bool \<Rightarrow> nat \<Rightarrow> nat option \<Rightarrow> char \<Rightarrow> step" where
  "convert d na ljust w p c =
     (case na of
        Spent \<Rightarrow> Fail TypeError
      | Whole \<Rightarrow>
          (if c = CHR ''s'' then Emit (pad_to ljust w (truncate_to p (dict_repr d))) Spent
           else if c = CHR ''r'' then Emit (pad_to ljust w (truncate_to p (dict_repr d))) Spent
           else if c = CHR ''a'' then Emit (pad_to ljust w (truncate_to p (dict_ascii d))) Spent
           else if c \<in> set ''diuoxXeEfFgGc'' then Fail TypeError
           else Fail ValueError)
      | Value v \<Rightarrow>
          (if c = CHR ''s'' then Emit (pad_to ljust w (truncate_to p v)) Spent
           else if c = CHR ''r'' then Emit (pad_to ljust w (truncate_to p (py_repr v))) Spent
           else if c = CHR ''a'' then Emit (pad_to ljust w (truncate_to p (py_ascii v))) Spent
           else if c \<in> set ''diuoxXeEfFgG'' then Fail TypeError
           else if c = CHR ''c'' then
             (if length v = 1 then Emit (pad_to ljust w v) Spent else Fail TypeError)
           else Fail ValueError))"

text \<open>
  The parts of a directive, each handing the character on to the next part when it is
  not its own. \<open>*\<close> as a width or a precision takes the next argument, which is never an
  integer here: \<open>TypeError\<close>. The digits of a width are refused from \<open>PY_SSIZE_T_MAX\<close> on,
  those of a precision from \<open>INT_MAX\<close> on: \<open>ValueError\<close>.
\<close>

definition PY_SSIZE_T_MAX :: nat where
  "PY_SSIZE_T_MAX = 2 ^ 63 - 1"

definition INT_MAX :: nat where
  "INT_MAX = 2 ^ 31 - 1"

definition is_digit :: "char \<Rightarrow> bool" where
  "is_digit c = (c \<in> set ''0123456789'')"

definition digit_value :: "char \<Rightarrow> nat" where
  "digit_value c = of_char c - of_char CHR ''0''"

definition after_prec :: "dict \<Rightarrow> next_arg \<Rightarrow> bool \<Rightarrow> nat \<Rightarrow> nat option \<Rightarrow> char \<Rightarrow> step" where
  "after_prec d na ljust w p c =
     (if c \<in> set ''hlL'' then Goto na (Conv ljust w p) else convert d na ljust w p c)"

definition after_width :: "dict \<Rightarrow> next_arg \<Rightarrow> bool \<Rightarrow> nat \<Rightarrow> char \<Rightarrow> step" where
  "after_width d na ljust w c =
     (if c = CHR ''.'' then Goto na (Dot ljust w) else after_prec d na ljust w None c)"

definition after_flags :: "dict \<Rightarrow> next_arg \<Rightarrow> bool \<Rightarrow> char \<Rightarrow> step" where
  "after_flags d na ljust c =
     (if c = CHR ''*'' then Fail TypeError
      else if is_digit c then Goto na (Width ljust (digit_value c))
      else after_width d na ljust 0 c)"

definition flags_char :: "dict \<Rightarrow> next_arg \<Rightarrow> bool \<Rightarrow> char \<Rightarrow> step" where
  "flags_char d na ljust c =
     (if c \<in> set ''-+ #0'' then Goto na (Flags (ljust \<or> c = CHR ''-''))
      else after_flags d na ljust c)"

fun transition :: "dict \<Rightarrow> next_arg \<Rightarrow> format_state \<Rightarrow> char \<Rightarrow> step" where
  "transition d na Text c = (if c = CHR ''%'' then Goto na Start else Emit [c] na)"
| "transition d na Start c =
     (if c = CHR ''%'' then Emit ''%'' na
      else if c = CHR ''('' then Goto na (InKey 1 [])
      else flags_char d na False c)"
| "transition d na (InKey n k) c =
     (if c = CHR '')'' then
        (if n = 1 then
           (case map_of d k of
              None \<Rightarrow> Fail (KeyError k)
            | Some v \<Rightarrow> Goto (Value v) (Flags False))
         else Goto na (InKey (n - 1) (k @ [c])))
      else if c = CHR ''('' then Goto na (InKey (Suc n) (k @ [c]))
      else Goto na (InKey n (k @ [c])))"
| "transition d na (Flags ljust) c = flags_char d na ljust c"
| "transition d na (Width ljust w) c =
     (if is_digit c then
        (if w > (PY_SSIZE_T_MAX - digit_value c) div 10 then Fail ValueError
         else Goto na (Width ljust (w * 10 + digit_value c)))
      else after_width d na ljust w c)"
| "transition d na (Dot ljust w) c =
     (if c = CHR ''*'' then Fail TypeError
      else if is_digit c then Goto na (Prec ljust w (digit_value c))
      else after_prec d na ljust w (Some 0) c)"
| "transition d na (Prec ljust w p) c =
     (if is_digit c then
        (if p > (INT_MAX - digit_value c) div 10 then Fail ValueError
         else Goto na (Prec ljust w (p * 10 + digit_value c)))
      else after_prec d na ljust w (Some p) c)"
| "transition d na (Conv ljust w p) c = convert d na ljust w p c"

text \<open>
  The reader. A template that ends inside a directive raises \<open>ValueError\<close> (incomplete
  format, incomplete format key).
\<close>

fun run :: "dict \<Rightarrow> next_arg \<Rightarrow> format_state \<Rightarrow> string \<Rightarrow> error + string" where
  "run d na st [] = (if st = Text then Inr [] else Inl ValueError)"
| "run d na st (c # s) =
     (case transition d na st c of
        Fail e \<Rightarrow> Inl e
      | Goto na' st' \<Rightarrow> run d na' st' s
      | Emit out na' \<Rightarrow> prepend out (run d na' Text s))"

definition py_format :: "string \<Rightarrow> dict \<Rightarrow> error + string" where
  "py_format template d = run d Whole Text template"

section \<open>cerbero.packages.rpm: the templates\<close>

definition SPEC_TPL :: string where
  \<open>SPEC_TPL =
     ''\<newline>'' @
     ''%%define _topdir %(topdir)s\<newline>'' @
     ''%%define _package_name %(package_name)s\<newline>'' @
     ''%%undefine _debugsource_packages\<newline>'' @
     ''%%undefine _debuginfo_subpackages\<newline>'' @
     ''\<newline>'' @
     ''Name:           %(p_prefix)s%(name)s\<newline>'' @
     ''Version:        %(version)s\<newline>'' @
     ''Release:        1\<newline>'' @
     ''Summary:        %(summary)s\<newline>'' @
     ''Source:         %(source)s\<newline>'' @
     ''Group:          Applications/Internet\<newline>'' @
     ''License:        %(licenses)s\<newline>'' @
     ''Prefix:         %(prefix)s\<newline>'' @
     ''Packager:       %(packager)s\<newline>'' @
     ''Vendor:         %(vendor)s\<newline>'' @
     ''%(url)s\<newline>'' @
     ''%(requires)s\<newline>'' @
     ''%(provides_conflicts_obsoletes)s\<newline>'' @
     ''\<newline>'' @
     ''%%description\<newline>'' @
     ''%(description)s\<newline>'' @
     ''\<newline>'' @
     ''%(devel_package)s\<newline>'' @
     ''\<newline>'' @
     ''%%prep\<newline>'' @
     ''%%setup -n %%{_package_name}\<newline>'' @
     ''\<newline>'' @
     ''%%build\<newline>'' @
     ''\<newline>'' @
     ''%%install\<newline>'' @
     ''mkdir -p $RPM_BUILD_ROOT/%%{prefix}\<newline>'' @
     ''cp -r $RPM_BUILD_DIR/%%{_package_name}/* $RPM_BUILD_ROOT/%%{prefix}\<newline>'' @
     ''\<newline>'' @
     ''# Workaround to remove full source dir paths from debuginfo packages\<newline>'' @
     ''# (tested in Fedora 16/17).\<newline>'' @
     ''#\<newline>'' @
     ''# What happens is that rpmbuild invokes find-debuginfo.sh which in turn\<newline>'' @
     ''# calls debugedit passing $RPM_BUILD_DIR as the "base-dir" param (-b) value.\<newline>'' @
     ''# debugedit then removes the "base-dir" path from debug information.\<newline>'' @
     ''#\<newline>'' @
     ''# Normally packages are built inside $RPM_BUILD_DIR, thus resulting in proper\<newline>'' @
     ''# debuginfo packages, but as we are building our recipes at $sources_dir and\<newline>'' @
     ''# only including binaries here directly, no path would be removed and debuginfo\<newline>'' @
     ''# packages containing full paths to source files would be used.\<newline>'' @
     ''#\<newline>'' @
     ''# Setting RPM_BUILD_DIR to $sources_dir should do the trick, setting here and\<newline>'' @
     ''# hoping for the best.\<newline>'' @
     ''export RPM_BUILD_DIR=%(sources_dir)s\<newline>'' @
     ''\<newline>'' @
     ''%%clean\<newline>'' @
     ''rm -rf $RPM_BUILD_ROOT\<newline>'' @
     ''\<newline>'' @
     ''%(scripts)s\<newline>'' @
     ''\<newline>'' @
     ''%%files\<newline>'' @
     ''%(files)s\<newline>'' @
     ''\<newline>'' @
     ''%(devel_files)s\<newline>''\<close>

definition DEVEL_PACKAGE_TPL :: string where
  \<open>DEVEL_PACKAGE_TPL =
     ''\<newline>'' @
     ''%%package devel\<newline>'' @
     ''%(requires)s\<newline>'' @
     ''Summary: %(summary)s\<newline>'' @
     ''%(provides_conflicts_obsoletes)s\<newline>'' @
     ''\<newline>'' @
     ''%%description devel\<newline>'' @
     ''%(description)s\<newline>''\<close>

definition META_SPEC_TPL :: string where
  \<open>META_SPEC_TPL =
     ''\<newline>'' @
     ''%%define _topdir %(topdir)s\<newline>'' @
     ''%%define _package_name %(package_name)s\<newline>'' @
     ''\<newline>'' @
     ''Name:           %(p_prefix)s%(name)s\<newline>'' @
     ''Version:        %(version)s\<newline>'' @
     ''Release:        1\<newline>'' @
     ''Summary:        %(summary)s\<newline>'' @
     ''Group:          Applications/Internet\<newline>'' @
     ''License:        %(licenses)s\<newline>'' @
     ''Packager:       %(packager)s\<newline>'' @
     ''Vendor:         %(vendor)s\<newline>'' @
     ''%(url)s\<newline>'' @
     ''\<newline>'' @
     ''%(requires)s\<newline>'' @
     ''\<newline>'' @
     ''%%description\<newline>'' @
     ''%(description)s\<newline>'' @
     ''\<newline>'' @
     ''%(devel_package)s\<newline>'' @
     ''\<newline>'' @
     ''%%prep\<newline>'' @
     ''\<newline>'' @
     ''%%build\<newline>'' @
     ''\<newline>'' @
     ''%%install\<newline>'' @
     ''\<newline>'' @
     ''%%clean\<newline>'' @
     ''rm -rf $RPM_BUILD_ROOT\<newline>'' @
     ''\<newline>'' @
     ''%%files\<newline>'' @
     ''\<newline>'' @
     ''%(devel_files)s\<newline>''\<close>

definition REQUIRE_TPL :: string where
  \<open>REQUIRE_TPL =
     ''Requires: %s\<newline>''\<close>

definition DEVEL_TPL :: string where
  \<open>DEVEL_TPL =
     ''%%files devel \<newline>'' @
     ''%s''\<close>

definition URL_TPL :: string where
  \<open>URL_TPL =
     ''URL: %s\<newline>''\<close>

definition PRE_TPL :: string where
  \<open>PRE_TPL =
     ''%%pre\<newline>''\<close>

definition POST_TPL :: string where
  \<open>POST_TPL =
     ''%%post\<newline>''\<close>

definition POSTUN_TPL :: string where
  \<open>POSTUN_TPL =
     ''%%postun\<newline>''\<close>


section \<open>cerbero.packages.rpm: RPMPackager.prepare\<close>

text \<open>
  What \<open>prepare\<close> reads from the descriptor \<open>self.package\<close>, with \<open>name\<close> and
  \<open>shortdesc\<close> as \<open>__getattribute__\<close> returns them in the descriptor's current mode.
  A license is its acronym. \<open>provides\<close>, \<open>conflicts\<close> and \<open>replaces_obsoletes\<close> are the
  entries for \<open>Distro.REDHAT\<close>, one list for each package type. A script is the text of
  the resource file, or \<open>None\<close> where \<open>os.path.exists\<close> finds no file.
\<close>

record rpm_package =
  pkg_name :: string
  pkg_version :: string
  pkg_shortdesc :: string
  pkg_longdesc :: string
  pkg_vendor :: string
  pkg_url :: string
  pkg_license :: string
  build_meta_package :: bool
  provides_runtime :: "string list"
  conflicts_runtime :: "string list"
  replaces_obsoletes_runtime :: "string list"
  provides_devel :: "string list"
  conflicts_devel :: "string list"
  replaces_obsoletes_devel :: "string list"
  preinstall :: "string option"
  postinstall :: "string option"
  postremove :: "string option"

text \<open>
  The packager itself, and what \<open>LinuxPackager\<close> answers it: the requirements
  (\<open>get_requires\<close>, and \<open>get_meta_requires\<close> with its requires, recommends and suggests),
  the licenses of the recipes, and the file lists of the descriptor that
  \<open>files_list(package_type)\<close> starts from.
\<close>

record rpm_packager =
  package :: rpm_package
  package_prefix :: string
  full_package_name :: string
  packager :: string
  install_dir :: string
  devel :: bool
  config_sources :: string
  resolved_files :: "string list"
  resolved_devel_files :: "string list"
  requires_runtime :: "string list"
  requires_devel :: "string list"
  meta_requires_runtime :: "string list \<times> string list \<times> string list"
  meta_requires_devel :: "string list \<times> string list \<times> string list"
  recipes_licenses :: "string list"

text \<open>
  Modelled from the spec: \<open>files_list(package_type)\<close> of the packager base class
  (cerbero.packages.packager), which \<open>_files_string_list\<close> calls. The specification has
  the resolved file list of the package type and the empty-package condition, raised when
  the resolved file list is empty.
\<close>

definition packager_files_list :: "rpm_packager \<Rightarrow> PackageType \<Rightarrow> error + string list" where
  "packager_files_list self package_type =
     (let fs = (if package_type = DEVEL then resolved_devel_files self else resolved_files self)
      in if fs = [] then Inl EmptyPackageError else Inr fs)"

text \<open>
  \<^verbatim>\<open>
  def _files_string_list(self, package_type):
      if self.package.build_meta_package:
          return ''
      files = self.files_list(package_type)
      for f in [x for x in files if x.endswith('.py')]:
          if f + 'c' not in files:
              files.append(f + 'c')
          if f + 'o' not in files:
              files.append(f + 'o')
      return '\\n'.join([os.path.join('%{prefix}',  x) for x in files])
  \<close>
\<close>

definition add_compiled :: "string list \<Rightarrow> string \<Rightarrow> string list" where
  "add_compiled fs f =
     (let fs1 = (if f @ ''c'' \<in> set fs then fs else fs @ [f @ ''c''])
      in if f @ ''o'' \<in> set fs1 then fs1 else fs1 @ [f @ ''o''])"

definition files_string_list :: "rpm_packager \<Rightarrow> PackageType \<Rightarrow> error + string" where
  \<open>files_string_list self package_type =
     (if build_meta_package (package self) then Inr []
      else
        (case packager_files_list self package_type of
           Inl e \<Rightarrow> Inl e
         | Inr fs \<Rightarrow>
             Inr (join_sep ''\<newline>''
                    (map (path_join ''%{prefix}'')
                       (foldl add_compiled fs (filter (\<lambda>x. endswith x ''.py'') fs))))))\<close>

text \<open>
  \<^verbatim>\<open>
  def _get_meta_requires(self, package_type):
      ...
      requires, recommends, suggests = \\
          self.get_meta_requires(package_type, devel_suffix)
      requires = ''.join([REQUIRE_TPL % x for x in requires + recommends])
      return requires

  def _get_requires(self, package_type):
      ...
      deps = self.get_requires(package_type, devel_suffix)
      return reduce(lambda x, y: x + REQUIRE_TPL % y, deps, '')
  \<close>
  \<open>REQUIRE_TPL % x\<close> puts the string \<open>x\<close> in the place of \<open>%s\<close>.
\<close>

definition require_line :: "string \<Rightarrow> string" where
  \<open>require_line x = ''Requires: '' @ x @ ''\<newline>''\<close>

definition get_meta_requires_string :: "rpm_packager \<Rightarrow> PackageType \<Rightarrow> string" where
  "get_meta_requires_string self package_type =
     (case (if package_type = DEVEL then meta_requires_devel self else meta_requires_runtime self) of
        (requires, recommends, suggests) \<Rightarrow> concat (map require_line (requires @ recommends)))"

definition get_requires_string :: "rpm_packager \<Rightarrow> PackageType \<Rightarrow> string" where
  "get_requires_string self package_type =
     foldl (\<lambda>x y. x @ require_line y) []
       (if package_type = DEVEL then requires_devel self else requires_runtime self)"

text \<open>
  \<^verbatim>\<open>
  def _devel_package_and_files(self):
      args = {}
      args['summary'] = 'Development files for %s' % self.package.name
      args['description'] = args['summary']
      if self.package.build_meta_package:
          args['requires'] = self._get_meta_requires(PackageType.DEVEL)
      else:
          args['requires'] = self._get_requires(PackageType.DEVEL)
      args['name'] = self.package.name
      args['p_prefix'] = self.package_prefix
      provides = ['%(p_prefix)s%(name)s-devel' % args] + self.package.provides[Distro.REDHAT][PackageType.DEVEL]
      conflicts = self.package.conflicts[Distro.REDHAT][PackageType.DEVEL]
      obsoletes = self.package.replaces_obsoletes[Distro.REDHAT][PackageType.DEVEL]
      args['provides_conflicts_obsoletes'] = 'Provides: %s' % ', '.join(provides)
      if conflicts:
          args['provides_conflicts_obsoletes'] += '\\nConflicts: %s' % ', '.join(conflicts)
      if obsoletes:
          args['provides_conflicts_obsoletes'] += '\\nObsoletes: %s' % ', '.join(obsoletes)
      try:
          devel = DEVEL_TPL % self._files_string_list(PackageType.DEVEL)
      except EmptyPackageError:
          devel = ''
      return DEVEL_PACKAGE_TPL % args, devel
  \<close>
  \<open>DEVEL_TPL % s\<close> is the line \<open>%files devel\<close> followed by the string \<open>s\<close>.
\<close>

definition provides_conflicts_obsoletes_string ::
  "string list \<Rightarrow> string list \<Rightarrow> string \<Rightarrow> string" where
  \<open>provides_conflicts_obsoletes_string conflicts obsoletes start =
     (let s1 = start;
          s2 = (if conflicts \<noteq> [] then s1 @ ''\<newline>Conflicts: '' @ join_sep '', '' conflicts else s1);
          s3 = (if obsoletes \<noteq> [] then s2 @ ''\<newline>Obsoletes: '' @ join_sep '', '' obsoletes else s2)
      in s3)\<close>

text \<open>
  The dictionary \<open>args\<close> when the template is formatted, with its keys in the order in
  which they were stored.
\<close>

definition devel_args :: "rpm_packager \<Rightarrow> dict" where
  "devel_args self =
     [(''summary'', ''Development files for '' @ pkg_name (package self)),
      (''description'', ''Development files for '' @ pkg_name (package self)),
      (''requires'',
         (if build_meta_package (package self) then get_meta_requires_string self DEVEL
          else get_requires_string self DEVEL)),
      (''name'', pkg_name (package self)),
      (''p_prefix'', package_prefix self),
      (''provides_conflicts_obsoletes'',
         provides_conflicts_obsoletes_string
           (conflicts_devel (package self)) (replaces_obsoletes_devel (package self))
           (''Provides: '' @ join_sep '', ''
              ((package_prefix self @ pkg_name (package self) @ ''-devel'')
                 # provides_devel (package self))))]"

definition devel_package_and_files :: "rpm_packager \<Rightarrow> error + string \<times> string" where
  \<open>devel_package_and_files self =
     (case (case files_string_list self DEVEL of
              Inl e \<Rightarrow> (if e = EmptyPackageError then Inr [] else Inl e)
            | Inr s \<Rightarrow> Inr (''%files devel \<newline>'' @ s)) of
        Inl e \<Rightarrow> Inl e
      | Inr devel_part \<Rightarrow>
          (case py_format DEVEL_PACKAGE_TPL (devel_args self) of
             Inl e \<Rightarrow> Inl e
           | Inr devel_package \<Rightarrow> Inr (devel_package, devel_part)))\<close>

text \<open>
  \<open>prepare\<close> renders the spec file. Its result here is the path and the text of the file
  it writes, and the two flags it sets on the descriptor.
  \<^verbatim>\<open>
  scripts = ''
  if os.path.exists(self.package.resources_preinstall):
      scripts += "{}{}\\n".format(
          PRE_TPL,
          open(self.package.resources_preinstall).read())
  if os.path.exists(self.package.resources_postinstall):
      scripts += "{}{}\\n".format(
          POST_TPL,
          open(self.package.resources_postinstall).read())
  if os.path.exists(self.package.resources_postremove):
      scripts += "{}{}\\n".format(
          POSTUN_TPL,
          open(self.package.resources_postremove).read())
  # Allow usage of templates in post scripts
  scripts = scripts % template_dict
  template_dict.update({'scripts': scripts})

  self._spec_str = template % template_dict
  \<close>
  The text of the three script files is itself a template: it is formatted with the
  dictionary before it is stored in it under \<open>scripts\<close>.
\<close>

record prepared =
  spec_path :: string
  spec_str :: string
  has_runtime_package :: bool
  has_devel_package :: bool

definition script_part :: "string \<Rightarrow> string option \<Rightarrow> string" where
  \<open>script_part tpl body = (case body of None \<Rightarrow> [] | Some content \<Rightarrow> tpl @ content @ ''\<newline>'')\<close>

definition scripts_template :: "rpm_package \<Rightarrow> string" where
  "scripts_template p =
     script_part PRE_TPL (preinstall p) @ script_part POST_TPL (postinstall p)
       @ script_part POSTUN_TPL (postremove p)"

definition runtime_files_string :: "rpm_packager \<Rightarrow> error + string" where
  \<open>runtime_files_string self =
     (case (case files_string_list self RUNTIME of
              Inl e \<Rightarrow> (if e = EmptyPackageError then Inr [] else Inl e)
            | Inr s \<Rightarrow> Inr s) of
        Inl e \<Rightarrow> Inl e
      | Inr runtime_files \<Rightarrow>
          Inr (if install_dir self = ''/usr'' then runtime_files
               else if install_dir self = ''/usr/local'' then runtime_files
               else runtime_files @ ''\<newline>'' @ path_join (install_dir self) []))\<close>

definition licenses_string :: "rpm_packager \<Rightarrow> string" where
  "licenses_string self =
     join_sep '' and ''
       (if build_meta_package (package self) then [pkg_license (package self)]
        else sort (remdups (pkg_license (package self) # recipes_licenses self)))"

text \<open>
  \<open>template_dict\<close> as it is before the scripts are formatted: the eighteen keys of the
  dictionary display, in their order, and \<open>provides_conflicts_obsoletes\<close>, stored after
  them.
\<close>

definition template_dict ::
  "rpm_packager \<Rightarrow> string \<Rightarrow> string \<Rightarrow> string \<Rightarrow> string \<Rightarrow> string \<Rightarrow> dict" where
  "template_dict self tarname tmpdir runtime_files devel_package devel_files =
     [(''name'', pkg_name (package self)),
      (''p_prefix'', package_prefix self),
      (''version'', pkg_version (package self)),
      (''package_name'', full_package_name self),
      (''summary'', pkg_shortdesc (package self)),
      (''description'',
         (if pkg_longdesc (package self) \<noteq> ''default'' \<and> pkg_longdesc (package self) \<noteq> []
          then pkg_longdesc (package self) else pkg_shortdesc (package self))),
      (''licenses'', licenses_string self),
      (''packager'', packager self),
      (''vendor'', pkg_vendor (package self)),
      (''url'',
         (if pkg_url (package self) \<noteq> ''default'' then ''URL: '' @ pkg_url (package self) @ [CHR 0x0A]
          else [])),
      (''requires'',
         (if build_meta_package (package self) then get_meta_requires_string self RUNTIME
          else get_requires_string self RUNTIME)),
      (''prefix'', install_dir self),
      (''source'', tarname),
      (''topdir'', tmpdir),
      (''devel_package'', devel_package),
      (''devel_files'', devel_files),
      (''files'', runtime_files),
      (''sources_dir'', config_sources self),
      (''provides_conflicts_obsoletes'',
         provides_conflicts_obsoletes_string
           (conflicts_runtime (package self)) (replaces_obsoletes_runtime (package self))
           (if provides_runtime (package self) \<noteq> []
            then ''Provides: '' @ join_sep '', '' (provides_runtime (package self)) else []))]"

definition prepare :: "rpm_packager \<Rightarrow> string \<Rightarrow> string \<Rightarrow> error + prepared" where
  "prepare self tarname tmpdir =
     (case runtime_files_string self of
        Inl e \<Rightarrow> Inl e
      | Inr runtime_files \<Rightarrow>
          (case (if devel self then devel_package_and_files self else Inr ([], [])) of
             Inl e \<Rightarrow> Inl e
           | Inr (devel_package, devel_files) \<Rightarrow>
               (let d = template_dict self tarname tmpdir runtime_files devel_package devel_files
                in case py_format (scripts_template (package self)) d of
                     Inl e \<Rightarrow> Inl e
                   | Inr scripts \<Rightarrow>
                       (case py_format
                               (if build_meta_package (package self) then META_SPEC_TPL else SPEC_TPL)
                               (dict_set d ''scripts'' scripts) of
                          Inl e \<Rightarrow> Inl e
                        | Inr content \<Rightarrow>
                            Inr \<lparr>spec_path = path_join tmpdir (pkg_name (package self) @ ''.spec''),
                                 spec_str = content,
                                 has_runtime_package =
                                   (runtime_files \<noteq> [] \<or> build_meta_package (package self)),
                                 has_devel_package =
                                   (if build_meta_package (package self) then True
                                    else devel_files \<noteq> [])\<rparr>))))"

text \<open>
  The text of the variable \<open>scripts\<close> once it is formatted, for a packager, a tarball name
  and a top directory.
\<close>

definition rendered_scripts :: "rpm_packager \<Rightarrow> string \<Rightarrow> string \<Rightarrow> error + string" where
  "rendered_scripts self tarname tmpdir =
     (case runtime_files_string self of
        Inl e \<Rightarrow> Inl e
      | Inr runtime_files \<Rightarrow>
          (case (if devel self then devel_package_and_files self else Inr ([], [])) of
             Inl e \<Rightarrow> Inl e
           | Inr (devel_package, devel_files) \<Rightarrow>
               py_format (scripts_template (package self))
                 (template_dict self tarname tmpdir runtime_files devel_package devel_files)))"

text \<open>
  How often a text occurs in a string: the number of places where it starts.
\<close>

fun occurrences :: "string \<Rightarrow> string \<Rightarrow> nat" where
  "occurrences pat [] = (if pat = [] then 1 else 0)"
| "occurrences pat (c # s) = (if startswith (c # s) pat then 1 else 0) + occurrences pat s"

text \<open>
  A text in which every percent sign is followed, within the text, by something other
  than \<open>files devel\<close>: no \<open>%files devel\<close> starts in it, and none starts in it when any text
  is put after it. A text without a percent sign is such a text.
\<close>

fun differs :: "string \<Rightarrow> string \<Rightarrow> bool" where
  "differs [] ps = False"
| "differs (c # s) [] = False"
| "differs (c # s) (p # ps) = (if c = p then differs s ps else True)"

fun quiet_text :: "string \<Rightarrow> bool" where
  "quiet_text [] = True"
| "quiet_text (c # s) =
     ((if c = CHR ''%'' then differs s ''files devel'' else True) \<and> quiet_text s)"

text \<open>
  The strings that a packager puts into the templates, for a tarball name and a top
  directory, the script files apart: all of them are such texts.
\<close>

definition quiet_package :: "rpm_package \<Rightarrow> bool" where
  "quiet_package p =
     (quiet_text (pkg_name p) \<and> quiet_text (pkg_version p) \<and> quiet_text (pkg_shortdesc p)
      \<and> quiet_text (pkg_longdesc p) \<and> quiet_text (pkg_vendor p) \<and> quiet_text (pkg_url p)
      \<and> quiet_text (pkg_license p)
      \<and> list_all quiet_text (provides_runtime p) \<and> list_all quiet_text (conflicts_runtime p)
      \<and> list_all quiet_text (replaces_obsoletes_runtime p)
      \<and> list_all quiet_text (provides_devel p) \<and> list_all quiet_text (conflicts_devel p)
      \<and> list_all quiet_text (replaces_obsoletes_devel p))"

definition quiet_inputs :: "rpm_packager \<Rightarrow> string \<Rightarrow> string \<Rightarrow> bool" where
  "quiet_inputs self tarname tmpdir =
     (quiet_package (package self)
      \<and> quiet_text (package_prefix self) \<and> quiet_text (full_package_name self)
      \<and> quiet_text (packager self) \<and> quiet_text (install_dir self)
      \<and> quiet_text (config_sources self)
      \<and> list_all quiet_text (resolved_files self) \<and> list_all quiet_text (resolved_devel_files self)
      \<and> list_all quiet_text (requires_runtime self) \<and> list_all quiet_text (requires_devel self)
      \<and> list_all quiet_text (recipes_licenses self)
      \<and> quiet_text tarname \<and> quiet_text tmpdir)"

section \<open>The templates, piece by piece\<close>

text \<open>
  A template is a sequence of literal texts and keys. Written as a format string, a
  percent sign of a literal text is doubled and a key \<open>k\<close> is \<open>%(k)s\<close>.
\<close>

datatype piece = Lit string | Key string

fun escape :: "string \<Rightarrow> string" where
  "escape [] = []"
| "escape (c # s) = (if c = CHR ''%'' then c # c # escape s else c # escape s)"

fun encode :: "piece \<Rightarrow> string" where
  "encode (Lit s) = escape s"
| "encode (Key k) = ''%('' @ k @ '')s''"

definition template_of :: "piece list \<Rightarrow> string" where
  "template_of ps = concat (map encode ps)"

fun render_pieces :: "dict \<Rightarrow> piece list \<Rightarrow> error + string" where
  "render_pieces d [] = Inr []"
| "render_pieces d (Lit s # ps) = prepend s (render_pieces d ps)"
| "render_pieces d (Key k # ps) =
     (case map_of d k of
        None \<Rightarrow> Inl (KeyError k)
      | Some v \<Rightarrow> prepend v (render_pieces d ps))"

fun plain_key :: "piece \<Rightarrow> bool" where
  "plain_key (Lit s) = True"
| "plain_key (Key k) = (CHR ''('' \<notin> set k \<and> CHR '')'' \<notin> set k)"

text \<open>
  The pieces of \<open>SPEC_TPL\<close> before its key \<open>scripts\<close>, between that key and the key
  \<open>devel_files\<close>, and after it, and the pieces of \<open>DEVEL_PACKAGE_TPL\<close>.
\<close>

definition spec_pieces_before :: "piece list" where
  \<open>spec_pieces_before =
    [Lit (''\<newline>'' @
        ''%define _topdir ''),
     Key ''topdir'',
     Lit (''\<newline>'' @
        ''%define _package_name ''),
     Key ''package_name'',
     Lit (''\<newline>'' @
        ''%undefine _debugsource_packages\<newline>'' @
        ''%undefine _debuginfo_subpackages\<newline>'' @
        ''\<newline>'' @
        ''Name:           ''),
     Key ''p_prefix'',
     Key ''name'',
     Lit (''\<newline>'' @
        ''Version:        ''),
     Key ''version'',
     Lit (''\<newline>'' @
        ''Release:        1\<newline>'' @
        ''Summary:        ''),
     Key ''summary'',
     Lit (''\<newline>'' @
        ''Source:         ''),
     Key ''source'',
     Lit (''\<newline>'' @
        ''Group:          Applications/Internet\<newline>'' @
        ''License:        ''),
     Key ''licenses'',
     Lit (''\<newline>'' @
        ''Prefix:         ''),
     Key ''prefix'',
     Lit (''\<newline>'' @
        ''Packager:       ''),
     Key ''packager'',
     Lit (''\<newline>'' @
        ''Vendor:         ''),
     Key ''vendor'',
     Lit ''\<newline>'',
     Key ''url'',
     Lit ''\<newline>'',
     Key ''requires'',
     Lit ''\<newline>'',
     Key ''provides_conflicts_obsoletes'',
     Lit (''\<newline>'' @
        ''\<newline>'' @
        ''%description\<newline>''),
     Key ''description'',
     Lit (''\<newline>'' @
        ''\<newline>''),
     Key ''devel_package'',
     Lit (''\<newline>'' @
        ''\<newline>'' @
        ''%prep\<newline>'' @
        ''%setup -n %{_package_name}\<newline>'' @
        ''\<newline>'' @
        ''%build\<newline>'' @
        ''\<newline>'' @
        ''%install\<newline>'' @
        ''mkdir -p $RPM_BUILD_ROOT/%{prefix}\<newline>'' @
        ''cp -r $RPM_BUILD_DIR/%{_package_name}/* $RPM_BUILD_ROOT/%{prefix}\<newline>'' @
        ''\<newline>'' @
        ''# Workaround to remove full source dir paths from debuginfo packages\<newline>'' @
        ''# (tested in Fedora 16/17).\<newline>'' @
        ''#\<newline>'' @
        ''# What happens is that rpmbuild invokes find-debuginfo.sh which in turn\<newline>'' @
        ''# calls debugedit passing $RPM_BUILD_DIR as the "base-dir" param (-b) value.\<newline>'' @
        ''# debugedit then removes the "base-dir" path from debug information.\<newline>'' @
        ''#\<newline>'' @
        ''# Normally packages are built inside $RPM_BUILD_DIR, thus resulting in proper\<newline>'' @
        ''# debuginfo packages, but as we are building our recipes at $sources_dir and\<newline>'' @
        ''# only including binaries here directly, no path would be removed and debuginfo\<newline>'' @
        ''# packages containing full paths to source files would be used.\<newline>'' @
        ''#\<newline>'' @
        ''# Setting RPM_BUILD_DIR to $sources_dir should do the trick, setting here and\<newline>'' @
        ''# hoping for the best.\<newline>'' @
        ''export RPM_BUILD_DIR=''),
     Key ''sources_dir'',
     Lit (''\<newline>'' @
        ''\<newline>'' @
        ''%clean\<newline>'' @
        ''rm -rf $RPM_BUILD_ROOT\<newline>'' @
        ''\<newline>'')]\<close>

definition spec_pieces_middle :: "piece list" where
  \<open>spec_pieces_middle =
    [Lit (''\<newline>'' @
        ''\<newline>'' @
        ''%files\<newline>''),
     Key ''files'',
     Lit (''\<newline>'' @
        ''\<newline>'')]\<close>

definition spec_pieces_after :: "piece list" where
  \<open>spec_pieces_after =
    [Lit ''\<newline>'']\<close>

definition devel_package_pieces :: "piece list" where
  \<open>devel_package_pieces =
    [Lit (''\<newline>'' @
        ''%package devel\<newline>''),
     Key ''requires'',
     Lit (''\<newline>'' @
        ''Summary: ''),
     Key ''summary'',
     Lit ''\<newline>'',
     Key ''provides_conflicts_obsoletes'',
     Lit (''\<newline>'' @
        ''\<newline>'' @
        ''%description devel\<newline>''),
     Key ''description'',
     Lit ''\<newline>'']\<close>


text \<open>A piece whose rendering is a text in which no \<open>%files devel\<close> starts.\<close>

fun quiet_piece :: "dict \<Rightarrow> piece \<Rightarrow> bool" where
  "quiet_piece d (Lit s) = quiet_text s"
| "quiet_piece d (Key k) = (case map_of d k of None \<Rightarrow> False | Some v \<Rightarrow> quiet_text v)"

section \<open>cerbero.packages.rpm: RPMPackager.build\<close>

text \<open>
  \<open>Architecture\<close> (cerbero.enums) names the processor families by strings, and
  \<open>Distro\<close> and \<open>DistroVersion\<close> name the distributions; \<open>_\<close> is
  \<open>gettext.gettext\<close>, which returns its argument where no catalogue is installed.
\<close>

definition Architecture_X86 :: string where
  "Architecture_X86 = ''x86''"

definition Architecture_X86_64 :: string where
  "Architecture_X86_64 = ''x86_64''"

record distro_names =
  Distro_REDHAT :: string
  DistroVersion_FEDORA_26 :: string
  DistroVersion_REDHAT_7 :: string

definition rpmbuild_support_nodebuginfo :: "distro_names \<Rightarrow> config \<Rightarrow> bool" where
  "rpmbuild_support_nodebuginfo dn cfg =
     (if distro cfg \<noteq> Distro_REDHAT dn then False
      else if contains (distro_version cfg) ''fedora''
              \<and> distro_version cfg > DistroVersion_FEDORA_26 dn then True
      else if contains (distro_version cfg) ''redhat''
              \<and> distro_version cfg > DistroVersion_REDHAT_7 dn then True
      else False)"

text \<open>
  What \<open>build\<close> does to the world: the commands it runs and the files it removes and
  moves. \<open>shell.call\<close> raises when the command fails; \<open>shell_ok\<close> says whether
  \<open>rpmbuild\<close> succeeds. \<open>listing\<close> is what \<open>os.listdir\<close> finds below \<open>packagedir\<close>
  after the run, and \<open>present\<close> the files that are in the output directory before.
\<close>

datatype effect = ShellCall string | Remove string | Move string string

definition rpmbuild_command :: "string \<Rightarrow> string \<Rightarrow> string \<Rightarrow> string \<Rightarrow> string" where
  "rpmbuild_command extra_options tmpdir target spec_file =
     ''rpmbuild -bb '' @ extra_options @ '' --buildroot '' @ tmpdir @ ''/buildroot --target ''
       @ target @ '' '' @ spec_file"

fun collect_file ::
  "string \<Rightarrow> string \<Rightarrow> string \<Rightarrow> (string set \<times> effect list \<times> string list) \<Rightarrow> string \<Rightarrow>
   (string set \<times> effect list \<times> string list)" where
  "collect_file output_dir packagedir d (present, effects, paths) f =
     (let out_path = path_join output_dir f;
          effects1 = (if out_path \<in> present then effects @ [Remove out_path] else effects)
      in (insert out_path present,
          effects1 @ [Move (path_join (path_join packagedir d) f) output_dir],
          paths @ [out_path]))"

definition collect_dir ::
  "string \<Rightarrow> string \<Rightarrow> (string set \<times> effect list \<times> string list) \<Rightarrow> (string \<times> string list) \<Rightarrow>
   (string set \<times> effect list \<times> string list)" where
  "collect_dir output_dir packagedir st entry =
     foldl (collect_file output_dir packagedir (fst entry)) st (snd entry)"

definition build ::
  "distro_names \<Rightarrow> config \<Rightarrow> string \<Rightarrow> bool \<Rightarrow> (string \<times> string list) list \<Rightarrow> string set \<Rightarrow>
   string \<Rightarrow> string \<Rightarrow> string \<Rightarrow> effect list \<times> (error + string list)" where
  "build dn cfg spec_file shell_ok listing present output_dir tmpdir packagedir =
     (case (if target_arch cfg = Architecture_X86 then Inr ''i686-redhat-linux''
            else if target_arch cfg = Architecture_X86_64 then Inr ''x86_64-redhat-linux''
            else Inl (FatalError (''Architecture '' @ target_arch cfg @ '' not supported''))) of
        Inl e \<Rightarrow> ([], Inl e)
      | Inr target \<Rightarrow>
          (let extra_options = (if rpmbuild_support_nodebuginfo dn cfg then ''--nodebuginfo'' else []);
               call = ShellCall (rpmbuild_command extra_options tmpdir target spec_file)
           in if \<not> shell_ok then ([call], Inl ShellError)
              else
                (case foldl (collect_dir output_dir packagedir) (present, [call], []) listing of
                   (present1, effects, paths) \<Rightarrow> (effects, Inr paths))))"

section \<open>Example descriptors\<close>

definition example_meta :: PackageBase where
  "example_meta = \<lparr>name = ''sdk'', shortdesc = ''SDK'', uuid = Some ''0a1b'',
     sys_deps = Map.empty, sys_deps_devel = Map.empty, package_mode = RUNTIME\<rparr>"

definition example_devel :: PackageBase where
  "example_devel = \<lparr>name = ''gstreamer'', shortdesc = ''GStreamer'', uuid = Some ''0a1b'',
     sys_deps = [''redhat'' \<mapsto> [''glibc'']],
     sys_deps_devel = [''redhat'' \<mapsto> [''glibc-devel'']], package_mode = DEVEL\<rparr>"

definition example_cfg :: config where
  "example_cfg = \<lparr>target_platform = ''linux'', target_distro = ''redhat'',
     target_distro_version = ''fedora_30'', target_arch = ''x86_64'',
     distro = ''redhat'', distro_version = ''fedora_30''\<rparr>"

definition example_archive :: "(string \<times> node) list" where
  "example_archive = [(''pkg-1.0/bin/tool'', File ''ELF''), (''../SOURCES2/x'', File ''payload'')]"

definition example_fs :: filesystem where
  "example_fs = [(''/tmp/build/pkg-1.0.tar.bz2'', Tar example_archive)]"

text \<open>A \<open>pre_build\<close> method that does nothing, as \<open>def pre_build(self, path): pass\<close>.\<close>

definition example_pre_build :: hook where
  "example_pre_build root fs = (fs, Inr ())"

definition example_distros :: distro_names where
  "example_distros = \<lparr>Distro_REDHAT = ''redhat'', DistroVersion_FEDORA_26 = ''fedora_26'',
     DistroVersion_REDHAT_7 = ''redhat_7''\<rparr>"

definition example_package :: Package where
  "example_package = \<lparr>name = ''base'', shortdesc = ''Base'', uuid = None,
     sys_deps = Map.empty, sys_deps_devel = Map.empty, package_mode = RUNTIME,
     deps = [], files = [''recipeA'', ''recipeB:tools''], platform_files = Map.empty,
     files_devel = [], platform_files_devel = Map.empty\<rparr>"

definition example_recipe :: "string \<Rightarrow> recipe" where
  "example_recipe n =
     (if n = ''recipeA'' then
        \<lparr>dist_files_list = [''lib/libA.so'', ''bin/a''], devel_files_list = [''include/a.h''],
         files_list_by_categories = (\<lambda>cats. []),
         files_list = [''lib/libA.so'', ''bin/a'', ''include/a.h''],
         libraries = [''lib/libA.so'']\<rparr>
      else
        \<lparr>dist_files_list = [''lib/libB.so'', ''bin/btool''], devel_files_list = [''include/b.h''],
         files_list_by_categories = (\<lambda>cats. if cats = [''tools''] then [''bin/btool''] else []),
         files_list = [''lib/libB.so'', ''bin/btool'', ''include/b.h''],
         libraries = [''lib/libB.so'']\<rparr>)"

definition example_cookbook :: cookbook where
  "example_cookbook n =
     (if n = ''recipeA'' then Inr (example_recipe n)
      else if n = ''recipeB'' then Inr (example_recipe n)
      else Inl (RecipeNotFoundError n))"

definition example_world :: "string collaborators" where
  "example_world = \<lparr>
     get_package = (\<lambda>n. if n = ''base'' then Inr ''base'' else Inl (KeyError n)),
     get_package_deps = (\<lambda>p. Inr []),
     package_recipes_dependencies = (\<lambda>p. Inr [''recipeA'', ''recipeB'']),
     package_files_list = (\<lambda>p. Inr [''bin/a'', ''bin/btool'', ''lib/libA.so'']),
     list_recipe_deps = (\<lambda>r. Inr [example_recipe ''recipeA'']),
     fetched_app_recipe = \<lparr>dist_files_list = [''bin/player''], devel_files_list = [],
       files_list_by_categories = (\<lambda>cats. []), files_list = [''bin/player''],
       libraries = []\<rparr>\<rparr>"

definition example_app :: App where
  "example_app = \<lparr>name = ''player'', shortdesc = ''Player'', uuid = None,
     sys_deps = Map.empty, sys_deps_devel = Map.empty, package_mode = RUNTIME,
     app_recipe = Some ''player'', embed_deps = False, app_deps = [''base''],
     platform_deps = None\<rparr>"

definition example_rpm_package :: rpm_package where
  "example_rpm_package = \<lparr>pkg_name = ''base'', pkg_version = ''1.0'', pkg_shortdesc = ''Base'',
     pkg_longdesc = ''default'', pkg_vendor = ''GStreamer Project'', pkg_url = ''default'',
     pkg_license = ''LGPL'', build_meta_package = False,
     provides_runtime = [], conflicts_runtime = [], replaces_obsoletes_runtime = [],
     provides_devel = [], conflicts_devel = [], replaces_obsoletes_devel = [],
     preinstall = None, postinstall = Some ''ldconfig'', postremove = None\<rparr>"

definition example_packager :: rpm_packager where
  "example_packager = \<lparr>package = example_rpm_package, package_prefix = ''gst-'',
     full_package_name = ''gst-base-1.0'', packager = ''cerbero'', install_dir = ''/usr'',
     devel = True, config_sources = ''/home/build/sources'',
     resolved_files = [''bin/a'', ''lib/libA.so''], resolved_devel_files = [''include/a.h''],
     requires_runtime = [''glibc''], requires_devel = [''gst-base''],
     meta_requires_runtime = ([], [], []), meta_requires_devel = ([], [], []),
     recipes_licenses = [''LGPL'', ''BSD'']\<rparr>"

text \<open>
  The same packager with a post-install script that uses the template dictionary: one
  that creates a directory under the prefix, one that repeats the block of development
  files, and one that holds the line \<open>%files devel\<close> itself, written with a doubled
  percent sign as a template has it.
\<close>

definition example_script_packager :: "string \<Rightarrow> string list \<Rightarrow> rpm_packager" where
  "example_script_packager script devel_files =
     example_packager\<lparr>package := example_rpm_package\<lparr>postinstall := Some script\<rparr>,
                      resolved_devel_files := devel_files\<rparr>"
section \<open>Dictionaries\<close>

text \<open>Storing under a key: the lookup, the keys, and that every key stays there once.\<close>

lemma map_of_dict_set: "map_of (dict_set d k v) = (map_of d)(k \<mapsto> v)"
  by (induction d k v rule: dict_set.induct) auto

lemma keys_dict_set: "fst ` set (dict_set d k v) = insert k (fst ` set d)"
  by (induction d k v rule: dict_set.induct) auto

lemma distinct_dict_set: "distinct (map fst d) \<Longrightarrow> distinct (map fst (dict_set d k v))"
proof (induction d k v rule: dict_set.induct)
  case (1 k v)
  show ?case by simp
next
  case (2 k' v' d k v)
  show ?case
  proof (cases "k' = k")
    case True
    then show ?thesis using "2.prems" by simp
  next
    case False
    then have "k' \<notin> fst ` set (dict_set d k v)"
      using "2.prems" by (simp add: keys_dict_set)
    then show ?thesis using False "2.IH" "2.prems" by simp
  qed
qed


section \<open>Properties of remove_list_duplicates\<close>

lemma set_first_occurrences: "set (first_occurrences xs) = set xs"
  by (induction xs) auto

lemma distinct_first_occurrences: "distinct (first_occurrences xs)"
  by (induction xs) (auto simp: distinct_removeAll)

lemma removeAll_first_occurrences:
  "removeAll x (first_occurrences xs) = first_occurrences (removeAll x xs)"
proof (induction xs)
  case Nil
  show ?case by simp
next
  case (Cons a xs)
  have comm: "removeAll x (removeAll a ys) = removeAll a (removeAll x ys)" for ys :: "'a list"
    by (induction ys) auto
  show ?case
  proof (cases "x = a")
    case True
    have "a \<notin> set (first_occurrences (removeAll a xs))"
      by (simp add: set_first_occurrences)
    then have "removeAll a (first_occurrences (removeAll a xs)) = first_occurrences (removeAll a xs)"
      by (rule removeAll_id)
    then show ?thesis using True Cons.IH by simp
  next
    case False
    then show ?thesis using Cons.IH by (simp add: comm)
  qed
qed

text \<open>The loop with the \<open>seen\<close> set computes the first occurrences of what is not yet seen.\<close>

lemma remove_dups_seen_filter:
  "remove_dups_seen seen xs = first_occurrences (filter (\<lambda>x. x \<notin> seen) xs)"
proof (induction xs arbitrary: seen)
  case Nil
  show ?case by simp
next
  case (Cons x xs)
  have "filter (\<lambda>y. y \<notin> insert x seen) xs = removeAll x (filter (\<lambda>y. y \<notin> seen) xs)"
    by (induction xs) auto
  then show ?case
    by (simp add: Cons.IH removeAll_first_occurrences)
qed

lemma remove_list_duplicates_first_occurrences:
  "remove_list_duplicates xs = first_occurrences xs"
  by (simp add: remove_list_duplicates_def remove_dups_seen_filter)

text \<open>
  \<^const>\<open>remdups\<close> of the library keeps the last occurrence of an element; the first
  occurrences are its mirror image.
\<close>

lemma first_occurrences_remdups: "first_occurrences xs = rev (remdups (rev xs))"
proof (induction xs)
  case Nil
  show ?case by simp
next
  case (Cons x xs)
  have a: "remdups (ys @ [x]) = removeAll x (remdups ys) @ [x]" for ys :: "'a list"
    by (induction ys) auto
  have b: "rev (removeAll x ys) = removeAll x (rev ys)" for ys :: "'a list"
    by (simp add: removeAll_filter_not_eq rev_filter)
  show ?case
    by (simp add: Cons.IH a b)
qed

lemma extend_each_all_ok:
  "map f xs = map Inr yss \<Longrightarrow> extend_each f xs acc = Inr (acc @ concat yss)"
proof (induction xs arbitrary: acc yss)
  case Nil
  then show ?case by simp
next
  case (Cons x xs)
  then obtain ys yss' where yss: "yss = ys # yss'" and fx: "f x = Inr ys"
    and rest: "map f xs = map Inr yss'"
    by (cases yss) auto
  show ?case
    using Cons.IH [OF rest] by (simp add: yss fx)
qed

section \<open>MetaPackage.recipes_dependencies\<close>

text \<open>
  C6. When the store resolves the children of a meta-package and every child returns its
  recipe dependencies, \<open>recipes_dependencies()\<close> of the meta-package is the concatenation
  of the children's lists, in the store's order, reduced to the first occurrence of every
  name: no name appears twice, and every name of a child appears.
\<close>

theorem MetaPackage_recipes_dependencies_dedup:
  assumes "store_deps (read_name self) True = Inr children"
    and "map rd children = map Inr dss"
  shows "MetaPackage_recipes_dependencies store_deps rd self
           = Inr (first_occurrences (concat dss))
         \<and> distinct (first_occurrences (concat dss))
         \<and> set (first_occurrences (concat dss)) = set (concat dss)"
  using assms
  by (simp add: MetaPackage_recipes_dependencies_def bind_err_def extend_each_all_ok
      remove_list_duplicates_first_occurrences distinct_first_occurrences
      set_first_occurrences)

text \<open>
  A meta-package \<open>sdk\<close> with the children \<open>core\<close> (needing glib and zlib) and \<open>codecs\<close>
  (needing zlib, ogg and glib).
\<close>

theorem MetaPackage_recipes_dependencies_dedup_witness:
  "MetaPackage_recipes_dependencies
     (\<lambda>n r. if n = ''sdk'' \<and> r then Inr [''core'', ''codecs''] else Inl AttributeError)
     (\<lambda>p. if p = ''core'' then Inr [''glib'', ''zlib''] else Inr [''zlib'', ''ogg'', ''glib''])
     example_meta
   = Inr [''glib'', ''zlib'', ''ogg'']"
  using MetaPackage_recipes_dependencies_dedup
    [of "\<lambda>n r. if n = ''sdk'' \<and> r then Inr [''core'', ''codecs''] else Inl AttributeError"
        example_meta "[''core'', ''codecs'']"
        "\<lambda>p. if p = ''core'' then Inr [''glib'', ''zlib''] else Inr [''zlib'', ''ogg'', ''glib'']"
        "[[''glib'', ''zlib''], [''zlib'', ''ogg'', ''glib'']]"]
  by (simp add: example_meta_def read_name_def RUNTIME_def)

section \<open>PackageBase: modes\<close>

text \<open>A mode switch writes the mode and nothing else.\<close>

lemma set_mode_stored_fields:
  "name (set_mode self m) = name self \<and> shortdesc (set_mode self m) = shortdesc self
   \<and> uuid (set_mode self m) = uuid self \<and> package_mode (set_mode self m) = m"
  by (simp add: set_mode_def)

text \<open>
  C2, as amended. For a descriptor whose current mode is the runtime mode (the mode every
  constructor sets), \<open>set_mode(DEVEL)\<close> followed by \<open>set_mode(RUNTIME)\<close> gives back the
  descriptor itself, so reads of \<open>name\<close>, \<open>shortdesc\<close> and \<open>uuid\<close> return what they
  returned before; and no mode switch, from any mode to any mode, changes the stored
  \<open>name\<close>, \<open>shortdesc\<close> or \<open>uuid\<close>.
\<close>

theorem set_mode_roundtrip_from_runtime:
  assumes "package_mode self = RUNTIME"
  shows "read_name (set_mode (set_mode self DEVEL) RUNTIME) = read_name self
       \<and> read_shortdesc (set_mode (set_mode self DEVEL) RUNTIME) = read_shortdesc self
       \<and> read_uuid (set_mode (set_mode self DEVEL) RUNTIME) = read_uuid self
       \<and> set_mode (set_mode self DEVEL) RUNTIME = self
       \<and> name (set_mode self m) = name self
       \<and> shortdesc (set_mode self m) = shortdesc self
       \<and> uuid (set_mode self m) = uuid self"
proof -
  have "set_mode (set_mode self DEVEL) RUNTIME = self"
    using assms by (simp add: set_mode_def)
  then show ?thesis
    by (simp add: set_mode_stored_fields)
qed

text \<open>The descriptor \<open>sdk\<close>, in the runtime mode, and what its development mode reads.\<close>

theorem set_mode_roundtrip_from_runtime_witness:
  "read_name (set_mode (set_mode example_meta DEVEL) RUNTIME) = ''sdk''
   \<and> read_shortdesc (set_mode (set_mode example_meta DEVEL) RUNTIME) = ''SDK''
   \<and> read_uuid (set_mode (set_mode example_meta DEVEL) RUNTIME) = Inr (Some ''0a1b'')
   \<and> read_name (set_mode example_meta DEVEL) = ''sdk-devel''
   \<and> read_uuid (set_mode example_meta DEVEL) = Inr (Some ''1a1b'')"
proof -
  have m: "package_mode example_meta = RUNTIME"
    by (simp add: example_meta_def)
  show ?thesis
    using set_mode_roundtrip_from_runtime [OF m]
    by (simp add: example_meta_def read_name_def read_shortdesc_def read_uuid_def
        set_mode_def RUNTIME_def DEVEL_def)
qed

text \<open>
  A descriptor that is in the development mode before the two switches reads
  \<open>gstreamer-devel\<close>, \<open>GStreamer (Development Files)\<close> and \<open>1a1b\<close> before them and the
  stored values after them.
\<close>

theorem set_mode_roundtrip_counterexample:
  "read_name (set_mode (set_mode example_devel DEVEL) RUNTIME) \<noteq> read_name example_devel
   \<and> read_shortdesc (set_mode (set_mode example_devel DEVEL) RUNTIME)
       \<noteq> read_shortdesc example_devel
   \<and> read_uuid (set_mode (set_mode example_devel DEVEL) RUNTIME) \<noteq> read_uuid example_devel"
  by (simp add: example_devel_def read_name_def read_shortdesc_def read_uuid_def
      set_mode_def RUNTIME_def DEVEL_def)

section \<open>PackageBase.get_sys_deps\<close>

text \<open>
  The mode that selects the map is the argument when it is a non-empty string, and the
  descriptor's own mode otherwise; with that mode one of the two package types, the call
  returns the entry of the selected map and does not raise.
\<close>

lemma get_sys_deps_effective_mode:
  assumes "py_or arg (package_mode self) = m" and "m = RUNTIME \<or> m = DEVEL"
  shows "get_sys_deps cfg self arg =
           Inr (lookup_sys_deps cfg (if m = DEVEL then sys_deps_devel self else sys_deps self))"
  using assms by (auto simp: get_sys_deps_def select_sys_deps_def RUNTIME_def DEVEL_def)

lemma get_sys_deps_devel_argument:
  "get_sys_deps cfg self (Some DEVEL) = Inr (lookup_sys_deps cfg (sys_deps_devel self))"
  by (simp add: get_sys_deps_def select_sys_deps_def py_or_def DEVEL_def)

text \<open>The runtime marker is the empty string, so passing it is passing nothing.\<close>

lemma get_sys_deps_runtime_argument:
  "get_sys_deps cfg self (Some RUNTIME) = get_sys_deps cfg self None"
  by (simp add: get_sys_deps_def py_or_def RUNTIME_def)

text \<open>
  C8. On a descriptor switched to the development mode, \<open>get_sys_deps(PackageType.RUNTIME)\<close>
  returns the entry of the development map, \<open>glibc-devel\<close>, where the runtime map holds
  \<open>glibc\<close> for the target distribution.
\<close>

theorem get_sys_deps_runtime_argument_in_devel_mode:
  "get_sys_deps example_cfg (set_mode example_devel DEVEL) (Some RUNTIME) = Inr [''glibc-devel'']
   \<and> lookup_sys_deps example_cfg (sys_deps (set_mode example_devel DEVEL)) = [''glibc'']"
  by (simp add: get_sys_deps_def select_sys_deps_def py_or_def lookup_sys_deps_def
      example_cfg_def example_devel_def set_mode_def RUNTIME_def DEVEL_def)

section \<open>RPMPackager.setup_source\<close>

text \<open>The check of the members comes first: when it raises, nothing has been written.\<close>

lemma check_members_rejects:
  "check_members cwd path members = Inl e \<Longrightarrow> safe_extract cwd path members fs = (fs, Inl e)"
  by (simp add: safe_extract_def)

lemma check_members_error:
  "check_members cwd path members = Inl e \<Longrightarrow> e = PathTraversal"
  by (induction members) (auto split: if_splits)

text \<open>The check passes exactly when \<open>is_within_directory\<close> accepts every member.\<close>

lemma check_members_Inr_iff:
  "check_members cwd path members = Inr () \<longleftrightarrow>
     list_all (\<lambda>m. is_within_directory cwd path (path_join path (fst m))) members"
  by (induction members) auto

text \<open>After a check that passes, every member has been written at its destination.\<close>

lemma extractall_keeps:
  "map_of fs p \<noteq> None \<Longrightarrow> map_of (extractall cwd path members fs) p \<noteq> None"
  by (induction members arbitrary: fs) (auto simp: map_of_dict_set)

lemma extractall_writes:
  "m \<in> set members \<Longrightarrow>
   map_of (extractall cwd path members fs) (abspath cwd (path_join path (fst m))) \<noteq> None"
proof (induction members arbitrary: fs)
  case Nil
  then show ?case by simp
next
  case (Cons a members)
  show ?case
  proof (cases "m \<in> set members")
    case True
    then show ?thesis using Cons.IH by simp
  next
    case False
    then have "m = a" using Cons.prems by simp
    then show ?thesis by (simp add: extractall_keeps map_of_dict_set)
  qed
qed

text \<open>
  A member \<open>../../etc/passwd\<close> under \<open>/tmp/build/SOURCES\<close> resolves to \<open>/etc/passwd\<close>
  and is refused.
\<close>

lemma dotdot_etc_passwd_rejected:
  "safe_extract ''/'' ''/tmp/build/SOURCES'' [(''../../etc/passwd'', File ''root'')] fs
     = (fs, Inl PathTraversal)"
  by (simp add: safe_extract_def normpath_def initial_slashes_def startswith_def endswith_def norm_step_def
      abspath_def path_join_def commonprefix_def min_def max_def is_within_directory_def)

text \<open>
  An archive with a member \<open>../SOURCES2/x\<close>, unpacked under \<open>/tmp/build/SOURCES\<close>:
  the destination is \<open>/tmp/build/SOURCES2/x\<close>, and the longest common prefix of the two
  strings is the whole of \<open>/tmp/build/SOURCES\<close>.
\<close>

lemma srcdir_abs: "abspath ''/'' ''/tmp/build/SOURCES'' = ''/tmp/build/SOURCES''"
  by (simp add: abspath_def normpath_def initial_slashes_def startswith_def norm_step_def)

lemma dest_tool:
  "abspath ''/'' (path_join ''/tmp/build/SOURCES'' ''pkg-1.0/bin/tool'')
     = ''/tmp/build/SOURCES/pkg-1.0/bin/tool''"
  by (simp add: abspath_def path_join_def endswith_def normpath_def initial_slashes_def
      startswith_def norm_step_def)

lemma dest_escape:
  "abspath ''/'' (path_join ''/tmp/build/SOURCES'' ''../SOURCES2/x'') = ''/tmp/build/SOURCES2/x''"
  by (simp add: abspath_def path_join_def endswith_def normpath_def initial_slashes_def
      startswith_def norm_step_def)

lemma within_tool:
  "is_within_directory ''/'' ''/tmp/build/SOURCES'' (path_join ''/tmp/build/SOURCES'' ''pkg-1.0/bin/tool'')"
  by (simp add: is_within_directory_def srcdir_abs dest_tool commonprefix_def min_def max_def)

lemma within_escape:
  "is_within_directory ''/'' ''/tmp/build/SOURCES'' (path_join ''/tmp/build/SOURCES'' ''../SOURCES2/x'')"
  by (simp add: is_within_directory_def srcdir_abs dest_escape commonprefix_def min_def max_def)

lemma check_example:
  "check_members ''/'' ''/tmp/build/SOURCES'' example_archive = Inr ()"
  by (simp add: example_archive_def within_tool within_escape)

text \<open>The paths of the example are absolute and normal.\<close>

lemma example_abs:
  "abspath ''/'' ''/tmp/build/pkg-1.0.tar.bz2'' = ''/tmp/build/pkg-1.0.tar.bz2''"
  "abspath ''/'' ''/tmp/build/SOURCES/pkg-1.0'' = ''/tmp/build/SOURCES/pkg-1.0''"
  "abspath ''/'' ''/tmp/build/SOURCES/pkg-1.0.tar'' = ''/tmp/build/SOURCES/pkg-1.0.tar''"
  "abspath ''/'' ''/tmp/build/SOURCES/pkg-1.0/bin/tool'' = ''/tmp/build/SOURCES/pkg-1.0/bin/tool''"
  "abspath ''/'' ''/tmp/build/SOURCES2/x'' = ''/tmp/build/SOURCES2/x''"
  by (simp_all add: abspath_def normpath_def initial_slashes_def startswith_def norm_step_def)

lemma escape_not_within:
  "\<not> path_within ''/'' ''/tmp/build/SOURCES'' ''/tmp/build/SOURCES2/x''"
  by (simp add: path_within_def srcdir_abs example_abs)

lemma extract_example:
  "safe_extract ''/'' ''/tmp/build/SOURCES'' example_archive example_fs
     = ([(''/tmp/build/pkg-1.0.tar.bz2'', Tar example_archive),
         (''/tmp/build/SOURCES/pkg-1.0/bin/tool'', File ''ELF''),
         (''/tmp/build/SOURCES2/x'', File ''payload'')], Inr ())"
proof -
  have "extractall ''/'' ''/tmp/build/SOURCES'' example_archive example_fs
     = [(''/tmp/build/pkg-1.0.tar.bz2'', Tar example_archive),
        (''/tmp/build/SOURCES/pkg-1.0/bin/tool'', File ''ELF''),
        (''/tmp/build/SOURCES2/x'', File ''payload'')]"
    unfolding example_fs_def
    by (subst example_archive_def) (simp add: dest_tool dest_escape)
  then show ?thesis
    by (simp add: safe_extract_def check_example)
qed

lemma example_names:
  "basename ''/tmp/build/pkg-1.0.tar.bz2'' = ''pkg-1.0.tar.bz2''"
  "endswith ''pkg-1.0.tar.bz2'' ''.bz2''"
  "path_join ''/tmp/build/SOURCES'' ''pkg-1.0'' = ''/tmp/build/SOURCES/pkg-1.0''"
  "path_join ''/tmp/build/SOURCES'' ''pkg-1.0.tar'' = ''/tmp/build/SOURCES/pkg-1.0.tar''"
  by (simp_all add: basename_def endswith_def path_join_def startswith_def)

text \<open>Of the two files that were unpacked, one lies in the tree of the package.\<close>

lemma example_tree:
  "path_within ''/'' ''/tmp/build/SOURCES/pkg-1.0'' ''/tmp/build/SOURCES/pkg-1.0/bin/tool''"
  "\<not> path_within ''/'' ''/tmp/build/SOURCES/pkg-1.0'' ''/tmp/build/SOURCES2/x''"
  "\<not> path_within ''/'' ''/tmp/build/SOURCES/pkg-1.0'' ''/tmp/build/SOURCES/pkg-1.0.tar''"
  "\<not> path_within ''/'' ''/tmp/build/SOURCES/pkg-1.0.tar'' ''/tmp/build/SOURCES/pkg-1.0/bin/tool''"
  "\<not> path_within ''/'' ''/tmp/build/SOURCES/pkg-1.0.tar'' ''/tmp/build/SOURCES2/x''"
  by (simp_all add: path_within_def example_abs)

lemma example_member_name:
  "member_name ''/'' ''/tmp/build/SOURCES/pkg-1.0'' ''pkg-1.0'' ''/tmp/build/SOURCES/pkg-1.0/bin/tool''
     = ''pkg-1.0/bin/tool''"
  by (simp add: member_name_def components_def example_abs path_join_def startswith_def
      endswith_def)

lemma pack_example:
  "pack_tree ''/'' ''/tmp/build/SOURCES/pkg-1.0.tar'' ''/tmp/build/SOURCES/pkg-1.0'' ''pkg-1.0''
       [(''/tmp/build/SOURCES/pkg-1.0/bin/tool'', File ''ELF''),
        (''/tmp/build/SOURCES2/x'', File ''payload'')]
     = ([(''/tmp/build/SOURCES/pkg-1.0/bin/tool'', File ''ELF''),
         (''/tmp/build/SOURCES2/x'', File ''payload''),
         (''/tmp/build/SOURCES/pkg-1.0.tar'', Tar [(''pkg-1.0/bin/tool'', File ''ELF'')])], Inr ())"
  by (simp add: pack_tree_def is_directory_def tree_members_def remove_file_def example_tree
      example_abs example_member_name Let_def)

text \<open>
  What \<open>setup_source\<close> does with the example, for a descriptor whose \<open>pre_build\<close> does
  nothing and for a descriptor without \<open>pre_build\<close>: the file outside the source directory
  is there in both cases.
\<close>

lemma setup_source_example:
  "setup_source ''/'' (Some example_pre_build) ''pkg-1.0'' ''/tmp/build/pkg-1.0.tar.bz2''
       ''/tmp/build/SOURCES'' example_fs
     = ([(''/tmp/build/SOURCES2/x'', File ''payload''),
         (''/tmp/build/SOURCES/pkg-1.0.tar'', Tar [(''pkg-1.0/bin/tool'', File ''ELF'')])],
        Inr ''pkg-1.0.tar'')"
proof -
  have open_tar: "open_archive ''/'' example_fs ''/tmp/build/pkg-1.0.tar.bz2'' = Inr example_archive"
    by (simp add: open_archive_def example_fs_def example_abs)
  show ?thesis
    unfolding setup_source_def open_tar
    by (simp add: extract_example example_names example_abs remove_file_def example_pre_build_def
        pack_example rmtree_def example_tree Let_def)
qed

lemma setup_source_example_no_hook:
  "setup_source ''/'' None ''pkg-1.0'' ''/tmp/build/pkg-1.0.tar.bz2'' ''/tmp/build/SOURCES'' example_fs
     = ([(''/tmp/build/SOURCES/pkg-1.0/bin/tool'', File ''ELF''),
         (''/tmp/build/SOURCES2/x'', File ''payload'')],
        Inl AttributeError)"
proof -
  have open_tar: "open_archive ''/'' example_fs ''/tmp/build/pkg-1.0.tar.bz2'' = Inr example_archive"
    by (simp add: open_archive_def example_fs_def example_abs)
  show ?thesis
    unfolding setup_source_def open_tar
    by (simp add: extract_example example_abs remove_file_def Let_def)
qed

text \<open>
  C1. For the archive with the members \<open>pkg-1.0/bin/tool\<close> and \<open>../SOURCES2/x\<close> and the
  source directory \<open>/tmp/build/SOURCES\<close>, the check of the members passes although
  \<open>/tmp/build/SOURCES2/x\<close> is not within the source directory; \<open>setup_source\<close> returns
  the name of the new archive and has written the member's data at
  \<open>/tmp/build/SOURCES2/x\<close>, which was not there before. For a descriptor without
  \<open>pre_build\<close> the call raises \<open>AttributeError\<close> after the archive is unpacked, and the
  data is at \<open>/tmp/build/SOURCES2/x\<close> as well.
\<close>

theorem setup_source_sibling_directory_escape:
  "check_members ''/'' ''/tmp/build/SOURCES'' example_archive = Inr ()
   \<and> \<not> path_within ''/'' ''/tmp/build/SOURCES'' ''/tmp/build/SOURCES2/x''
   \<and> snd (setup_source ''/'' (Some example_pre_build) ''pkg-1.0'' ''/tmp/build/pkg-1.0.tar.bz2''
            ''/tmp/build/SOURCES'' example_fs) = Inr ''pkg-1.0.tar''
   \<and> map_of (fst (setup_source ''/'' (Some example_pre_build) ''pkg-1.0''
            ''/tmp/build/pkg-1.0.tar.bz2'' ''/tmp/build/SOURCES'' example_fs))
         ''/tmp/build/SOURCES2/x'' = Some (File ''payload'')
   \<and> map_of example_fs ''/tmp/build/SOURCES2/x'' = None
   \<and> snd (setup_source ''/'' None ''pkg-1.0'' ''/tmp/build/pkg-1.0.tar.bz2''
            ''/tmp/build/SOURCES'' example_fs) = Inl AttributeError
   \<and> map_of (fst (setup_source ''/'' None ''pkg-1.0''
            ''/tmp/build/pkg-1.0.tar.bz2'' ''/tmp/build/SOURCES'' example_fs))
         ''/tmp/build/SOURCES2/x'' = Some (File ''payload'')"
proof -
  have "map_of example_fs ''/tmp/build/SOURCES2/x'' = None"
    by (simp add: example_fs_def)
  then show ?thesis
    using check_example escape_not_within
    by (simp add: setup_source_example setup_source_example_no_hook)
qed

section \<open>RPMPackager.build\<close>

text \<open>The loops that collect the packages only add to what has been done.\<close>

lemma collect_file_effects:
  "\<exists>rest. fst (snd (collect_file out p d st f)) = fst (snd st) @ rest"
  by (cases st) (simp add: Let_def)

lemma collect_dir_effects:
  "\<exists>rest. fst (snd (collect_dir out p st entry)) = fst (snd st) @ rest"
proof -
  have "\<exists>rest. fst (snd (foldl (collect_file out p d) st fs)) = fst (snd st) @ rest" for d fs
  proof (induction fs arbitrary: st)
    case Nil
    show ?case by simp
  next
    case (Cons f fs)
    obtain r1 where r1: "fst (snd (collect_file out p d st f)) = fst (snd st) @ r1"
      using collect_file_effects by blast
    obtain r2 where "fst (snd (foldl (collect_file out p d) (collect_file out p d st f) fs))
        = fst (snd (collect_file out p d st f)) @ r2"
      using Cons.IH by blast
    then show ?case by (simp add: r1)
  qed
  then show ?thesis by (simp add: collect_dir_def)
qed

lemma collect_listing_effects:
  "\<exists>rest. fst (snd (foldl (collect_dir out p) st listing)) = fst (snd st) @ rest"
proof (induction listing arbitrary: st)
  case Nil
  show ?case by simp
next
  case (Cons e es)
  obtain r1 where r1: "fst (snd (collect_dir out p st e)) = fst (snd st) @ r1"
    using collect_dir_effects by blast
  obtain r2 where "fst (snd (foldl (collect_dir out p) (collect_dir out p st e) es))
      = fst (snd (collect_dir out p st e)) @ r2"
    using Cons.IH by blast
  then show ?case by (simp add: r1)
qed

lemma contains_append: "contains (a @ b @ c) b"
proof (induction a)
  case Nil
  have e: "contains s []" for s
    by (cases s) (simp_all add: startswith_def)
  show ?case by (cases b) (simp_all add: startswith_def e)
next
  case (Cons x a)
  then show ?case by simp
qed

lemma build_first_effect:
  assumes "target_arch cfg = Architecture_X86 \<or> target_arch cfg = Architecture_X86_64"
  shows "\<exists>rest. fst (build dn cfg spec_file shell_ok listing present output_dir tmpdir packagedir)
     = ShellCall (rpmbuild_command
          (if rpmbuild_support_nodebuginfo dn cfg then ''--nodebuginfo'' else [])
          tmpdir
          (if target_arch cfg = Architecture_X86 then ''i686-redhat-linux''
           else ''x86_64-redhat-linux'')
          spec_file) # rest"
proof -
  let ?call = "ShellCall (rpmbuild_command
          (if rpmbuild_support_nodebuginfo dn cfg then ''--nodebuginfo'' else [])
          tmpdir
          (if target_arch cfg = Architecture_X86 then ''i686-redhat-linux''
           else ''x86_64-redhat-linux'')
          spec_file)"
  obtain rest where
    "fst (snd (foldl (collect_dir output_dir packagedir) (present, [?call], []) listing))
       = [?call] @ rest"
    using collect_listing_effects [of output_dir packagedir "(present, [?call], [])" listing]
    by auto
  then show ?thesis
    using assms
    by (auto simp: build_def Let_def split: prod.splits)
qed

text \<open>
  C9. For a target architecture other than X86 and X86_64, \<open>build\<close> raises the fatal
  error \<open>Architecture <arch> not supported\<close>, whose message contains the architecture, and
  has run no command; for X86 the first thing it does is to run \<open>rpmbuild\<close> with the target
  \<open>i686-redhat-linux\<close>, and for X86_64 with the target \<open>x86_64-redhat-linux\<close>.
\<close>

theorem build_target_by_architecture:
  "(target_arch cfg \<noteq> Architecture_X86 \<and> target_arch cfg \<noteq> Architecture_X86_64 \<longrightarrow>
      build dn cfg spec_file shell_ok listing present output_dir tmpdir packagedir
        = ([], Inl (FatalError (''Architecture '' @ target_arch cfg @ '' not supported'')))
      \<and> contains (''Architecture '' @ target_arch cfg @ '' not supported'') (target_arch cfg))
   \<and> (target_arch cfg = Architecture_X86 \<longrightarrow>
      (\<exists>rest. fst (build dn cfg spec_file shell_ok listing present output_dir tmpdir packagedir)
         = ShellCall (rpmbuild_command
             (if rpmbuild_support_nodebuginfo dn cfg then ''--nodebuginfo'' else [])
             tmpdir ''i686-redhat-linux'' spec_file) # rest))
   \<and> (target_arch cfg = Architecture_X86_64 \<longrightarrow>
      (\<exists>rest. fst (build dn cfg spec_file shell_ok listing present output_dir tmpdir packagedir)
         = ShellCall (rpmbuild_command
             (if rpmbuild_support_nodebuginfo dn cfg then ''--nodebuginfo'' else [])
             tmpdir ''x86_64-redhat-linux'' spec_file) # rest))"
proof (intro conjI impI)
  assume "target_arch cfg \<noteq> Architecture_X86 \<and> target_arch cfg \<noteq> Architecture_X86_64"
  then show "build dn cfg spec_file shell_ok listing present output_dir tmpdir packagedir
        = ([], Inl (FatalError (''Architecture '' @ target_arch cfg @ '' not supported'')))"
    by (simp add: build_def)
next
  show "contains (''Architecture '' @ target_arch cfg @ '' not supported'') (target_arch cfg)"
    by (rule contains_append)
next
  assume a: "target_arch cfg = Architecture_X86"
  show "\<exists>rest. fst (build dn cfg spec_file shell_ok listing present output_dir tmpdir packagedir)
         = ShellCall (rpmbuild_command
             (if rpmbuild_support_nodebuginfo dn cfg then ''--nodebuginfo'' else [])
             tmpdir ''i686-redhat-linux'' spec_file) # rest"
    using build_first_effect [of cfg dn spec_file shell_ok listing present output_dir tmpdir packagedir] a
    by simp
next
  assume a: "target_arch cfg = Architecture_X86_64"
  then have "target_arch cfg \<noteq> Architecture_X86"
    by (simp add: Architecture_X86_def Architecture_X86_64_def)
  then show "\<exists>rest. fst (build dn cfg spec_file shell_ok listing present output_dir tmpdir packagedir)
         = ShellCall (rpmbuild_command
             (if rpmbuild_support_nodebuginfo dn cfg then ''--nodebuginfo'' else [])
             tmpdir ''x86_64-redhat-linux'' spec_file) # rest"
    using build_first_effect [of cfg dn spec_file shell_ok listing present output_dir tmpdir packagedir] a
    by simp
qed

text \<open>The three cases at the architectures \<open>armv7\<close>, \<open>x86\<close> and \<open>x86_64\<close>.\<close>

lemma example_nodebuginfo: "rpmbuild_support_nodebuginfo example_distros (example_cfg\<lparr>target_arch := a\<rparr>)"
  by (simp add: rpmbuild_support_nodebuginfo_def example_distros_def example_cfg_def startswith_def)

theorem build_target_by_architecture_witness:
  "build example_distros (example_cfg\<lparr>target_arch := ''armv7''\<rparr>) ''/tmp/b/pkg.spec'' True
       [(''x86_64'', [''pkg-1.0.rpm''])] {} ''/out'' ''/tmp/b'' ''/tmp/b/RPMS''
     = ([], Inl (FatalError ''Architecture armv7 not supported''))
   \<and> hd (fst (build example_distros (example_cfg\<lparr>target_arch := ''x86''\<rparr>) ''/tmp/b/pkg.spec'' True
       [(''x86_64'', [''pkg-1.0.rpm''])] {} ''/out'' ''/tmp/b'' ''/tmp/b/RPMS''))
     = ShellCall ''rpmbuild -bb --nodebuginfo --buildroot /tmp/b/buildroot --target i686-redhat-linux /tmp/b/pkg.spec''
   \<and> hd (fst (build example_distros (example_cfg\<lparr>target_arch := ''x86_64''\<rparr>) ''/tmp/b/pkg.spec'' True
       [(''x86_64'', [''pkg-1.0.rpm''])] {} ''/out'' ''/tmp/b'' ''/tmp/b/RPMS''))
     = ShellCall ''rpmbuild -bb --nodebuginfo --buildroot /tmp/b/buildroot --target x86_64-redhat-linux /tmp/b/pkg.spec''"
proof -
  have arm: "target_arch (example_cfg\<lparr>target_arch := ''armv7''\<rparr>) \<noteq> Architecture_X86
      \<and> target_arch (example_cfg\<lparr>target_arch := ''armv7''\<rparr>) \<noteq> Architecture_X86_64"
    by (simp add: Architecture_X86_def Architecture_X86_64_def)
  have x86: "target_arch (example_cfg\<lparr>target_arch := ''x86''\<rparr>) = Architecture_X86"
    by (simp add: Architecture_X86_def)
  have x64: "target_arch (example_cfg\<lparr>target_arch := ''x86_64''\<rparr>) = Architecture_X86_64"
    by (simp add: Architecture_X86_64_def)
  note t = build_target_by_architecture [where dn = example_distros
      and spec_file = "''/tmp/b/pkg.spec''" and shell_ok = True
      and listing = "[(''x86_64'', [''pkg-1.0.rpm''])]" and present = "{}"
      and output_dir = "''/out''" and tmpdir = "''/tmp/b''" and packagedir = "''/tmp/b/RPMS''"]
  have 1: "build example_distros (example_cfg\<lparr>target_arch := ''armv7''\<rparr>) ''/tmp/b/pkg.spec'' True
       [(''x86_64'', [''pkg-1.0.rpm''])] {} ''/out'' ''/tmp/b'' ''/tmp/b/RPMS''
     = ([], Inl (FatalError ''Architecture armv7 not supported''))"
    using t [of "example_cfg\<lparr>target_arch := ''armv7''\<rparr>"] arm by simp
  have 2: "hd (fst (build example_distros (example_cfg\<lparr>target_arch := ''x86''\<rparr>) ''/tmp/b/pkg.spec'' True
       [(''x86_64'', [''pkg-1.0.rpm''])] {} ''/out'' ''/tmp/b'' ''/tmp/b/RPMS''))
     = ShellCall ''rpmbuild -bb --nodebuginfo --buildroot /tmp/b/buildroot --target i686-redhat-linux /tmp/b/pkg.spec''"
    using t [of "example_cfg\<lparr>target_arch := ''x86''\<rparr>"] x86
    by (auto simp: example_nodebuginfo rpmbuild_command_def)
  have 3: "hd (fst (build example_distros (example_cfg\<lparr>target_arch := ''x86_64''\<rparr>) ''/tmp/b/pkg.spec'' True
       [(''x86_64'', [''pkg-1.0.rpm''])] {} ''/out'' ''/tmp/b'' ''/tmp/b/RPMS''))
     = ShellCall ''rpmbuild -bb --nodebuginfo --buildroot /tmp/b/buildroot --target x86_64-redhat-linux /tmp/b/pkg.spec''"
    using t [of "example_cfg\<lparr>target_arch := ''x86_64''\<rparr>"] x64
    by (auto simp: example_nodebuginfo rpmbuild_command_def)
  show ?thesis using 1 2 3 by simp
qed

text \<open>A whole run: one package is produced, and the one of the same name is replaced.\<close>

lemma build_example_paths:
  "build example_distros example_cfg ''/tmp/b/pkg.spec'' True
     [(''x86_64'', [''pkg-1.0.rpm''])] {''/out/pkg-1.0.rpm''} ''/out'' ''/tmp/b'' ''/tmp/b/RPMS''
   = ([ShellCall ''rpmbuild -bb --nodebuginfo --buildroot /tmp/b/buildroot --target x86_64-redhat-linux /tmp/b/pkg.spec'',
       Remove ''/out/pkg-1.0.rpm'',
       Move ''/tmp/b/RPMS/x86_64/pkg-1.0.rpm'' ''/out''],
      Inr [''/out/pkg-1.0.rpm''])"
  using example_nodebuginfo [of "''x86_64''"]
  by (simp add: build_def collect_dir_def rpmbuild_command_def path_join_def startswith_def
      endswith_def Architecture_X86_def Architecture_X86_64_def example_cfg_def Let_def)

section \<open>Package: the parsed entries\<close>

text \<open>
  The dictionary that \<open>_parse_files\<close> builds names every recipe once, and gives a recipe
  the categories of the last entry that names it.
\<close>

lemma parse_files_foldl:
  "distinct (map fst d) \<Longrightarrow>
   distinct (map fst (foldl (\<lambda>d r. dict_set d (fst (parse_entry r)) (snd (parse_entry r))) d es))
   \<and> map_of (foldl (\<lambda>d r. dict_set d (fst (parse_entry r)) (snd (parse_entry r))) d es)
       = map_of d ++ map_of (rev (map parse_entry es))"
proof (induction es arbitrary: d)
  case Nil
  then show ?case by simp
next
  case (Cons r es)
  have "distinct (map fst (dict_set d (fst (parse_entry r)) (snd (parse_entry r))))"
    using Cons.prems by (rule distinct_dict_set)
  from Cons.IH [OF this] show ?case
    by (simp add: map_of_dict_set map_add_def fun_eq_iff split: option.splits)
qed

lemma parse_files_dict:
  "distinct (map fst (parse_files es)) \<and> map_of (parse_files es) = map_of (rev (map parse_entry es))"
  using parse_files_foldl [of "[]" es] by (simp add: parse_files_def)

text \<open>A loop whose calls all return extends the list by what they return, in order.\<close>

lemma extend_each_resolved:
  assumes "\<forall>x \<in> set xs. f x = Inr (g x)"
  shows "extend_each f xs acc = Inr (acc @ concat (map g xs))"
proof -
  have "map f xs = map Inr (map g xs)"
    using assms by simp
  then show ?thesis by (rule extend_each_all_ok)
qed

lemma concat_map_filter:
  "concat (map (\<lambda>x. if P x then g x else []) xs) = concat (map g (filter P xs))"
  by (induction xs) auto

section \<open>Package.files_list\<close>

text \<open>
  The loop of \<open>files_list\<close>, run over the pairs of the parsed dictionary, does what the
  method is meant to do. When the cookbook knows the recipe of every pair, it returns the
  sorted list of the files selected pair by pair: the recipe's whole distribution list for
  a pair without categories, the files of the named categories otherwise. The list is
  sorted and holds these files and no others, as often as they are selected. The parsed
  pairs are those of \<open>files\<close> followed by the entries for the target platform, one per
  recipe.
\<close>

lemma files_list_loop_selects_by_category:
  assumes "\<forall>e \<in> set (recipes_files (load_files cfg self)). ck (fst e) = Inr (rcp (fst e))"
  shows "files_list_loop ck (recipes_files (load_files cfg self))
           = Inr (sort (concat (map (selected_files rcp) (recipes_files (load_files cfg self)))))
       \<and> sorted (sort (concat (map (selected_files rcp) (recipes_files (load_files cfg self)))))
       \<and> mset (sort (concat (map (selected_files rcp) (recipes_files (load_files cfg self)))))
           = mset (concat (map (selected_files rcp) (recipes_files (load_files cfg self))))
       \<and> recipes_files (load_files cfg self)
           = parse_files (files self @ dict_get_default (platform_files self) (target_platform cfg))
       \<and> distinct (map fst (recipes_files (load_files cfg self)))"
proof -
  have "\<forall>e \<in> set (recipes_files (load_files cfg self)).
          runtime_entry_files ck e = Inr (selected_files rcp e)"
    using assms by (simp add: runtime_entry_files_def selected_files_def)
  then have "extend_each (runtime_entry_files ck) (recipes_files (load_files cfg self)) []
      = Inr ([] @ concat (map (selected_files rcp) (recipes_files (load_files cfg self))))"
    by (rule extend_each_resolved)
  then have "files_list_loop ck (recipes_files (load_files cfg self))
           = Inr (sort (concat (map (selected_files rcp) (recipes_files (load_files cfg self)))))"
    by (simp add: files_list_loop_def)
  moreover have "recipes_files (load_files cfg self)
           = parse_files (files self @ dict_get_default (platform_files self) (target_platform cfg))"
    by (simp add: load_files_def Let_def)
  ultimately show ?thesis
    by (simp add: parse_files_dict)
qed

text \<open>
  The entries \<open>recipeA\<close> and \<open>recipeB:tools\<close>: the loop gives the distribution files of
  the first recipe and the tools of the second.
\<close>

lemma example_package_loaded:
  "recipes_files (load_files example_cfg example_package)
     = [(''recipeA'', []), (''recipeB'', [''tools''])]"
  "recipes_files_devel (load_files example_cfg example_package) = []"
  by (simp_all add: load_files_def example_package_def dict_get_default_def parse_files_def
      parse_entry_def)

lemma files_list_loop_example:
  "files_list_loop example_cookbook (recipes_files (load_files example_cfg example_package))
     = Inr [''bin/a'', ''bin/btool'', ''lib/libA.so'']"
proof -
  have "\<forall>e \<in> set (recipes_files (load_files example_cfg example_package)).
          example_cookbook (fst e) = Inr (example_recipe (fst e))"
    by (simp add: example_package_loaded example_cookbook_def)
  from files_list_loop_selects_by_category [OF this, THEN conjunct1]
  show ?thesis
    by (simp add: example_package_loaded selected_files_def example_recipe_def)
qed

text \<open>
  C4. The method itself never reaches its loop. For every package on which
  \<open>load_files()\<close> has run, with whatever cookbook, \<open>files_list()\<close> raises \<open>AttributeError\<close>
  where it asks the parsed dictionary for \<open>iteritems\<close>, and returns no list; so it does
  for the entries \<open>recipeA\<close> and \<open>recipeB:tools\<close>, for which the loop would give the three
  files above.
\<close>

theorem Package_files_list_raises:
  "Package_files_list ck (load_files cfg self) = Inl AttributeError
   \<and> Package_files_list example_cookbook (load_files example_cfg example_package)
       \<noteq> files_list_loop example_cookbook (recipes_files (load_files example_cfg example_package))"
  by (simp add: Package_files_list_def iteritems_def files_list_loop_example)

section \<open>Package.devel_files_list\<close>

text \<open>
  The two loops of \<open>devel_files_list\<close>, run over the pairs of the two parsed dictionaries,
  do what the method is meant to do: they return the sorted list made of the development
  files of the recipes of exactly those runtime pairs that have no category or name the
  libraries category, followed by what the development pairs select; a runtime pair that
  names only other categories adds nothing (and its recipe is not even looked up).
\<close>

lemma devel_files_list_loops_gate:
  assumes "\<forall>e \<in> set (filter (\<lambda>e. snd e = [] \<or> LIBS_CAT \<in> set (snd e)) (recipes_files (load_files cfg self)))
                 \<union> set (recipes_files_devel (load_files cfg self)).
             ck (fst e) = Inr (rcp (fst e))"
  shows "devel_files_list_loops ck (recipes_files (load_files cfg self))
             (Inr (recipes_files_devel (load_files cfg self)))
           = Inr (sort
               (concat (map (\<lambda>e. devel_files_list (rcp (fst e)))
                  (filter (\<lambda>e. snd e = [] \<or> LIBS_CAT \<in> set (snd e))
                     (recipes_files (load_files cfg self))))
                @ concat (map (selected_devel_files rcp) (recipes_files_devel (load_files cfg self)))))"
proof -
  let ?L = "load_files cfg self"
  let ?gate = "\<lambda>e::string \<times> string list. snd e = [] \<or> LIBS_CAT \<in> set (snd e)"
  have "\<forall>e \<in> set (recipes_files ?L).
      runtime_entry_devel_files ck e = Inr (if ?gate e then devel_files_list (rcp (fst e)) else [])"
    using assms by (auto simp: runtime_entry_devel_files_def exposes_libraries_def)
  then have 1: "extend_each (runtime_entry_devel_files ck) (recipes_files ?L) []
      = Inr ([] @ concat (map (\<lambda>e. if ?gate e then devel_files_list (rcp (fst e)) else [])
                       (recipes_files ?L)))"
    by (rule extend_each_resolved)
  have "\<forall>e \<in> set (recipes_files_devel ?L). devel_entry_files ck e = Inr (selected_devel_files rcp e)"
    using assms by (simp add: devel_entry_files_def selected_devel_files_def)
  then have 2: "extend_each (devel_entry_files ck) (recipes_files_devel ?L) acc
      = Inr (acc @ concat (map (selected_devel_files rcp) (recipes_files_devel ?L)))" for acc
    by (rule extend_each_resolved)
  show ?thesis
    by (simp add: devel_files_list_loops_def 1 2 concat_map_filter)
qed

text \<open>
  The runtime entries \<open>recipeA\<close> and \<open>recipeB:tools\<close>: the loops put the header of the
  first recipe in the list and not the header of the second.
\<close>

lemma devel_files_list_loops_example:
  "devel_files_list_loops example_cookbook (recipes_files (load_files example_cfg example_package))
       (Inr (recipes_files_devel (load_files example_cfg example_package)))
     = Inr [''include/a.h'']"
proof -
  have "\<forall>e \<in> set (filter (\<lambda>e. snd e = [] \<or> LIBS_CAT \<in> set (snd e))
                     (recipes_files (load_files example_cfg example_package)))
               \<union> set (recipes_files_devel (load_files example_cfg example_package)).
          example_cookbook (fst e) = Inr (example_recipe (fst e))"
    by (simp add: example_package_loaded example_cookbook_def)
  from devel_files_list_loops_gate [OF this]
  show ?thesis
    by (simp add: example_package_loaded selected_devel_files_def example_recipe_def LIBS_CAT_def)
qed

text \<open>
  A runtime entry that names the libraries category, one that names another category,
  and a development entry with a category: the header of the first recipe and the tool
  that the development entry selects.
\<close>

lemma devel_files_list_loops_categories:
  "devel_files_list_loops example_cookbook
       [(''recipeA'', [''libs'']), (''recipeB'', [''tools''])] (Inr [(''recipeB'', [''tools''])])
     = Inr [''bin/btool'', ''include/a.h'']"
  by (simp add: devel_files_list_loops_def runtime_entry_devel_files_def exposes_libraries_def
      devel_entry_files_def example_cookbook_def example_recipe_def LIBS_CAT_def)

text \<open>
  C5. The method itself never reaches its loops. For every package on which
  \<open>load_files()\<close> has run, with whatever cookbook, \<open>devel_files_list()\<close> raises
  \<open>AttributeError\<close> where it asks the dictionary of the runtime entries for \<open>iteritems\<close>,
  and returns no list: the development files of an entry without category, such as
  \<open>recipeA\<close>, are not included in anything.
\<close>

theorem Package_devel_files_list_raises:
  "Package_devel_files_list ck (load_files cfg self) = Inl AttributeError
   \<and> Package_devel_files_list example_cookbook (load_files example_cfg example_package)
       \<noteq> devel_files_list_loops example_cookbook
           (recipes_files (load_files example_cfg example_package))
           (Inr (recipes_files_devel (load_files example_cfg example_package)))"
  by (simp add: Package_devel_files_list_def iteritems_def devel_files_list_loops_example)

text \<open>\<open>all_files_list\<close> calls the two methods and raises with the first.\<close>

lemma Package_all_files_list_raises:
  "Package_all_files_list ck self = Inl AttributeError"
  by (simp add: Package_all_files_list_def Package_files_list_def iteritems_def)

section \<open>App.recipes_dependencies\<close>

text \<open>
  C3, as amended. When the store knows every dependency of an application and each
  returns its recipe dependencies, \<open>recipes_dependencies()\<close> returns the union of these
  with the application's own recipe, and \<open>embed_deps\<close> has no part in it: the call returns
  the same for either value of the flag.
\<close>

theorem App_recipes_dependencies_union:
  assumes "map (dep_recipes_dependencies w) (read_deps cfg self) = map Inr dss"
  shows "App_recipes_dependencies cfg w self
           = Inr (set (concat dss) \<union> (case app_recipe self of None \<Rightarrow> {} | Some r \<Rightarrow> {r}))
       \<and> App_recipes_dependencies cfg w (self\<lparr>embed_deps := b\<rparr>)
           = App_recipes_dependencies cfg w self"
proof -
  have "extend_each (dep_recipes_dependencies w) (read_deps cfg self) [] = Inr ([] @ concat dss)"
    using assms by (rule extend_each_all_ok)
  then have "App_recipes_dependencies cfg w self
           = Inr (set (concat dss) \<union> (case app_recipe self of None \<Rightarrow> {} | Some r \<Rightarrow> {r}))"
    by (simp add: App_recipes_dependencies_def split: option.splits)
  moreover have "App_recipes_dependencies cfg w (self\<lparr>embed_deps := b\<rparr>)
           = App_recipes_dependencies cfg w self"
  proof -
    have "read_deps cfg (self\<lparr>embed_deps := b\<rparr>) = read_deps cfg self"
      by (simp add: read_deps_def split: option.splits)
    then show ?thesis
      by (simp add: App_recipes_dependencies_def cong: sum.case_cong)
  qed
  ultimately show ?thesis by simp
qed

text \<open>The application \<open>player\<close> that depends on the package \<open>base\<close>, with either flag.\<close>

theorem App_recipes_dependencies_union_witness:
  "App_recipes_dependencies example_cfg example_world (example_app\<lparr>embed_deps := True\<rparr>)
     = Inr {''recipeA'', ''recipeB'', ''player''}
   \<and> App_recipes_dependencies example_cfg example_world example_app
     = Inr {''recipeA'', ''recipeB'', ''player''}"
proof -
  have "map (dep_recipes_dependencies example_world) (read_deps example_cfg example_app)
      = map Inr [[''recipeA'', ''recipeB'']]"
    by (simp add: dep_recipes_dependencies_def read_deps_def example_world_def example_app_def)
  from App_recipes_dependencies_union [OF this, of True]
  show ?thesis
    by (auto simp: example_app_def)
qed

text \<open>
  With \<open>embed_deps\<close> false the result still holds the recipes of the package \<open>base\<close>,
  and is not the application's recipe alone.
\<close>

theorem App_recipes_dependencies_counterexample:
  "\<not> embed_deps example_app
   \<and> app_recipe example_app = Some ''player''
   \<and> App_recipes_dependencies example_cfg example_world example_app
       = Inr {''recipeA'', ''recipeB'', ''player''}
   \<and> App_recipes_dependencies example_cfg example_world example_app \<noteq> Inr {''player''}"
  by (auto simp: App_recipes_dependencies_def dep_recipes_dependencies_def read_deps_def
      example_world_def example_app_def)

section \<open>App.devel_files_list and App.all_files_list\<close>

text \<open>
  C10. For every application, in every mode and for either value of \<open>embed_deps\<close>,
  \<open>devel_files_list()\<close> is the empty list, and \<open>all_files_list()\<close> is what \<open>files_list()\<close>
  is: the same list, the same error, or no return for the same fuel.
\<close>

theorem App_devel_and_all_files_list:
  "App_devel_files_list self = []
   \<and> App_devel_files_list (set_mode self m) = []
   \<and> App_devel_files_list (self\<lparr>embed_deps := b\<rparr>) = []
   \<and> App_all_files_list fuel cfg w self = App_files_list fuel cfg w self"
  by (simp add: App_devel_files_list_def App_all_files_list_def)

text \<open>What \<open>files_list()\<close> is without and with embedded dependencies.\<close>

lemma App_files_list_not_embedded:
  "\<not> embed_deps self \<Longrightarrow>
   App_files_list fuel cfg w self = Some (Inr (sort (files_list (fetched_app_recipe w))))"
  by (simp add: App_files_list_def)

lemma App_files_list_example:
  "App_files_list 5 example_cfg example_world (example_app\<lparr>embed_deps := True\<rparr>)
     = Some (Inr [''bin/a'', ''bin/btool'', ''bin/player'', ''lib/libA.so'', ''lib/libA.so''])"
  by (simp add: App_files_list_def read_deps_def example_app_def example_world_def
      embedded_files_def example_recipe_def eval_nat_numeral)

section \<open>Formatting a template\<close>

lemma prepend_Inr: "prepend v (Inr t) = Inr (v @ t)"
  by (simp add: prepend_def)

lemma prepend_prepend: "prepend a (prepend b r) = prepend (a @ b) r"
  by (cases r) (simp_all add: prepend_def)

lemma prepend_Nil: "prepend [] r = r"
  by (cases r) (simp_all add: prepend_def)

text \<open>
  Formatting the format string of a sequence of pieces renders the pieces: a literal text
  comes out as it is, a key as the string stored under it.
\<close>

lemma run_escape:
  "run d na Text (escape s @ rest) = prepend s (run d na Text rest)"
proof (induction s)
  case Nil
  show ?case by (simp add: prepend_Nil)
next
  case (Cons c s)
  show ?case by (simp add: Cons.IH prepend_prepend)
qed

lemma run_key:
  "CHR ''('' \<notin> set k \<Longrightarrow> CHR '')'' \<notin> set k \<Longrightarrow>
   run d na (InKey 1 acc) (k @ '')s'' @ rest)
     = (case map_of d (acc @ k) of None \<Rightarrow> Inl (KeyError (acc @ k))
        | Some v \<Rightarrow> prepend v (run d Spent Text rest))"
proof (induction k arbitrary: acc)
  case Nil
  show ?case
    by (simp add: flags_char_def after_flags_def is_digit_def after_width_def after_prec_def
        convert_def pad_to_def truncate_to_def split: option.splits)
next
  case (Cons c k)
  have c: "c \<noteq> CHR ''(''" "c \<noteq> CHR '')''"
    using Cons.prems by auto
  have k: "CHR ''('' \<notin> set k" "CHR '')'' \<notin> set k"
    using Cons.prems by auto
  show ?case
    using Cons.IH [OF k, of "acc @ [c]"] c by (simp cong: option.case_cong)
qed

lemma run_pieces:
  "list_all plain_key ps \<Longrightarrow> run d na Text (template_of ps) = render_pieces d ps"
proof (induction ps arbitrary: na)
  case Nil
  show ?case by (simp add: template_of_def)
next
  case (Cons p ps)
  then have IH: "run d na' Text (concat (map encode ps)) = render_pieces d ps" for na'
    by (simp add: template_of_def)
  show ?case
  proof (cases p)
    case (Lit s)
    show ?thesis
      by (simp add: Lit template_of_def run_escape IH)
  next
    case (Key k)
    then have k: "CHR ''('' \<notin> set k" "CHR '')'' \<notin> set k"
      using Cons.prems by simp_all
    show ?thesis
      using run_key [OF k, of d na "[]" "concat (map encode ps)"]
      by (simp add: Key template_of_def IH cong: option.case_cong)
  qed
qed

lemma py_format_pieces:
  "list_all plain_key ps \<Longrightarrow> py_format (template_of ps) d = render_pieces d ps"
  by (simp add: py_format_def run_pieces)

lemma render_pieces_append:
  "render_pieces d (ps @ qs)
     = (case render_pieces d ps of Inl e \<Rightarrow> Inl e | Inr t \<Rightarrow> prepend t (render_pieces d qs))"
proof (induction ps)
  case Nil
  show ?case by (simp add: prepend_Nil)
next
  case (Cons p ps)
  show ?case
    by (cases p; cases "render_pieces d ps"; cases "render_pieces d qs")
      (simp_all add: Cons.IH prepend_def split: option.splits)
qed

text \<open>The templates of the RPM packager are the format strings of their pieces.\<close>

lemma SPEC_TPL_pieces:
  "SPEC_TPL = template_of (spec_pieces_before @ Key ''scripts'' # spec_pieces_middle
                             @ Key ''devel_files'' # spec_pieces_after)"
  by (simp add: SPEC_TPL_def template_of_def spec_pieces_before_def spec_pieces_middle_def
      spec_pieces_after_def)

lemma DEVEL_PACKAGE_TPL_pieces: "DEVEL_PACKAGE_TPL = template_of devel_package_pieces"
  by (simp add: DEVEL_PACKAGE_TPL_def template_of_def devel_package_pieces_def)

lemma spec_pieces_plain:
  "list_all plain_key (spec_pieces_before @ Key ''scripts'' # spec_pieces_middle
                         @ Key ''devel_files'' # spec_pieces_after)"
  "list_all plain_key devel_package_pieces"
  by (simp_all add: spec_pieces_before_def spec_pieces_middle_def spec_pieces_after_def
      devel_package_pieces_def)

section \<open>Texts in which no line of development files starts\<close>

lemma startswith_simps:
  "startswith s [] = True"
  "startswith [] (p # ps) = False"
  "startswith (c # s) (p # ps) = (c = p \<and> startswith s ps)"
  by (auto simp: startswith_def)

lemma differs_append: "differs s p \<Longrightarrow> differs (s @ t) p"
  by (induction s p rule: differs.induct) (auto split: if_splits)

lemma differs_not_startswith: "differs s p \<Longrightarrow> \<not> startswith (s @ rest) p"
  by (induction s p rule: differs.induct) (auto simp: startswith_simps split: if_splits)

lemma quiet_occurrences:
  "quiet_text a \<Longrightarrow> occurrences ''%files devel'' (a @ rest) = occurrences ''%files devel'' rest"
proof (induction a)
  case Nil
  show ?case by simp
next
  case (Cons c a)
  then have "\<not> startswith (c # a @ rest) ''%files devel''"
    using differs_not_startswith [of a "''files devel''" rest]
    by (auto simp: startswith_simps split: if_splits)
  then show ?case using Cons by simp
qed

lemma quiet_append: "quiet_text a \<Longrightarrow> quiet_text b \<Longrightarrow> quiet_text (a @ b)"
  by (induction a) (auto simp: differs_append split: if_splits)

lemma no_percent_quiet: "CHR ''%'' \<notin> set a \<Longrightarrow> quiet_text a"
  by (induction a) auto

lemma quiet_join:
  "quiet_text sep \<Longrightarrow> list_all quiet_text xs \<Longrightarrow> quiet_text (join_sep sep xs)"
  by (induction sep xs rule: join_sep.induct) (auto simp: quiet_append)

text \<open>
  A text that does not hold a character cannot start across that character: the
  occurrences of \<open>%files devel\<close> before a line feed and from it on add up.
\<close>

lemma startswith_across:
  "c \<notin> set p \<Longrightarrow> startswith (s @ c # rest) p = startswith s p"
proof (induction s arbitrary: p)
  case Nil
  then show ?case by (cases p) (auto simp: startswith_simps)
next
  case (Cons x s)
  then show ?case by (cases p) (auto simp: startswith_simps)
qed

lemma occurrences_line_feed:
  "occurrences ''%files devel'' (a @ CHR 0x0A # rest)
     = occurrences ''%files devel'' a + occurrences ''%files devel'' (CHR 0x0A # rest)"
proof (induction a)
  case Nil
  show ?case by simp
next
  case (Cons x a)
  have "startswith ((x # a) @ CHR 0x0A # rest) ''%files devel'' = startswith (x # a) ''%files devel''"
    by (rule startswith_across) simp
  then show ?case using Cons by simp
qed

lemma quiet_requires:
  "quiet_text acc \<Longrightarrow> list_all quiet_text ds \<Longrightarrow>
   quiet_text (foldl (\<lambda>x y. x @ require_line y) acc ds)"
proof (induction ds arbitrary: acc)
  case Nil
  then show ?case by simp
next
  case (Cons y ds)
  have "quiet_text (require_line y)"
    using Cons.prems(2) by (simp add: require_line_def quiet_append)
  then have "quiet_text (acc @ require_line y)"
    using Cons.prems(1) by (simp add: quiet_append)
  then show ?case using Cons by simp
qed

lemma quiet_get_requires:
  "list_all quiet_text (requires_runtime self) \<Longrightarrow> list_all quiet_text (requires_devel self) \<Longrightarrow>
   quiet_text (get_requires_string self t)"
  by (simp add: get_requires_string_def quiet_requires)

lemma quiet_licenses:
  assumes "quiet_text (pkg_license (package self))" "list_all quiet_text (recipes_licenses self)"
  shows "quiet_text (licenses_string self)"
proof -
  have "list_all quiet_text (sort (remdups (pkg_license (package self) # recipes_licenses self)))"
    using assms by (simp add: list_all_iff)
  then show ?thesis
    using assms by (simp add: licenses_string_def quiet_join)
qed

lemma quiet_pco:
  assumes "list_all quiet_text cs" "list_all quiet_text os" "quiet_text start"
  shows "quiet_text (provides_conflicts_obsoletes_string cs os start)"
proof -
  have j: "quiet_text (join_sep '', '' cs)" "quiet_text (join_sep '', '' os)"
    using assms by (simp_all add: quiet_join)
  have c: "quiet_text (CHR 0x0A # ''Conflicts: '' @ join_sep '', '' cs)"
    using j by simp
  have o: "quiet_text (CHR 0x0A # ''Obsoletes: '' @ join_sep '', '' os)"
    using j by simp
  have 1: "quiet_text (start @ CHR 0x0A # ''Conflicts: '' @ join_sep '', '' cs)"
    using assms(3) c by (rule quiet_append)
  have 2: "quiet_text (start @ CHR 0x0A # ''Obsoletes: '' @ join_sep '', '' os)"
    using assms(3) o by (rule quiet_append)
  have 3: "quiet_text ((start @ CHR 0x0A # ''Conflicts: '' @ join_sep '', '' cs)
                         @ CHR 0x0A # ''Obsoletes: '' @ join_sep '', '' os)"
    using 1 o by (rule quiet_append)
  show ?thesis
    using assms(3) 1 2 3 by (simp add: provides_conflicts_obsoletes_string_def Let_def)
qed

lemma quiet_add_compiled:
  "list_all quiet_text fs \<Longrightarrow> list_all quiet_text gs \<Longrightarrow>
   list_all quiet_text (foldl add_compiled fs gs)"
proof (induction gs arbitrary: fs)
  case Nil
  then show ?case by simp
next
  case (Cons g gs)
  have "quiet_text (g @ ''c'')" "quiet_text (g @ ''o'')"
    using Cons.prems(2) by (simp_all add: quiet_append)
  then have "list_all quiet_text (add_compiled fs g)"
    using Cons.prems by (simp add: add_compiled_def Let_def)
  then show ?case using Cons by simp
qed

lemma quiet_prefixed: "quiet_text x \<Longrightarrow> quiet_text (path_join ''%{prefix}'' x)"
  by (simp add: path_join_def endswith_def)

lemma quiet_files_string:
  assumes "list_all quiet_text fs"
  shows "quiet_text (join_sep [CHR 0x0A]
           (map (path_join ''%{prefix}'') (foldl add_compiled fs (filter (\<lambda>x. endswith x ''.py'') fs))))"
proof -
  have "list_all quiet_text (filter (\<lambda>x. endswith x ''.py'') fs)"
    using assms by (simp add: list_all_iff)
  then have "list_all quiet_text (foldl add_compiled fs (filter (\<lambda>x. endswith x ''.py'') fs))"
    using assms by (simp add: quiet_add_compiled)
  then have "list_all quiet_text
      (map (path_join ''%{prefix}'') (foldl add_compiled fs (filter (\<lambda>x. endswith x ''.py'') fs)))"
    by (simp add: list_all_iff quiet_prefixed)
  then show ?thesis
    by (simp add: quiet_join)
qed

lemma render_quiet:
  "list_all (quiet_piece d) ps \<Longrightarrow> \<exists>t. render_pieces d ps = Inr t \<and> quiet_text t"
proof (induction ps)
  case Nil
  show ?case by simp
next
  case (Cons p ps)
  then obtain t where t: "render_pieces d ps = Inr t" "quiet_text t"
    by auto
  show ?case
    using Cons.prems t
    by (cases p) (auto simp: prepend_def quiet_append split: option.splits)
qed

section \<open>RPMPackager.prepare\<close>

text \<open>The strings that \<open>prepare\<close> puts together from such inputs.\<close>

lemma files_string_list_quiet:
  assumes "\<not> build_meta_package (package self)"
    and "list_all quiet_text (if t = DEVEL then resolved_devel_files self else resolved_files self)"
  shows "\<exists>s. quiet_text s \<and> files_string_list self t =
           (if (if t = DEVEL then resolved_devel_files self else resolved_files self) = []
            then Inl EmptyPackageError else Inr s)"
proof -
  let ?fs = "if t = DEVEL then resolved_devel_files self else resolved_files self"
  have "quiet_text (join_sep [CHR 0x0A]
      (map (path_join ''%{prefix}'') (foldl add_compiled ?fs (filter (\<lambda>x. endswith x ''.py'') ?fs))))"
    using assms(2) by (rule quiet_files_string)
  then show ?thesis
    using assms(1)
    by (auto simp: files_string_list_def packager_files_list_def Let_def)
qed

lemma runtime_files_string_quiet:
  assumes "\<not> build_meta_package (package self)"
    and "list_all quiet_text (resolved_files self)"
    and "quiet_text (install_dir self)"
  shows "\<exists>rf. runtime_files_string self = Inr rf \<and> quiet_text rf"
proof -
  obtain s where s: "quiet_text s"
    "files_string_list self RUNTIME = (if resolved_files self = [] then Inl EmptyPackageError else Inr s)"
    using files_string_list_quiet [of self RUNTIME] assms(1,2)
    by (auto simp: RUNTIME_def DEVEL_def)
  have "quiet_text (install_dir self @ ''/'')"
    using assms(3) by (simp add: quiet_append)
  then have tail: "quiet_text (CHR 0x0A # path_join (install_dir self) [])"
    using assms(3) by (simp add: path_join_def startswith_def)
  show ?thesis
    using s tail quiet_append [of s "CHR 0x0A # path_join (install_dir self) []"]
    by (auto simp: runtime_files_string_def)
qed

text \<open>
  In the three lemmas that follow, the names of the development files are left out of
  what is asked of the inputs.
\<close>

lemma devel_package_quiet:
  assumes "\<not> build_meta_package (package self)"
    and "quiet_inputs (self\<lparr>resolved_devel_files := []\<rparr>) tarname tmpdir"
  shows "\<exists>dp. py_format DEVEL_PACKAGE_TPL (devel_args self) = Inr dp \<and> quiet_text dp"
proof -
  have p: "quiet_text (pkg_name (package self))" "quiet_text (package_prefix self)"
    "list_all quiet_text (provides_devel (package self))"
    "list_all quiet_text (conflicts_devel (package self))"
    "list_all quiet_text (replaces_obsoletes_devel (package self))"
    "list_all quiet_text (requires_runtime self)" "list_all quiet_text (requires_devel self)"
    using assms(2) by (simp_all add: quiet_inputs_def quiet_package_def)
  have summary: "quiet_text (''Development files for '' @ pkg_name (package self))"
    using p(1) by simp
  have req: "quiet_text (get_requires_string self DEVEL)"
    using p by (simp add: quiet_get_requires)
  have "quiet_text (pkg_name (package self) @ ''-devel'')"
    using p(1) by (simp add: quiet_append)
  then have own: "quiet_text (package_prefix self @ pkg_name (package self) @ ''-devel'')"
    using p(2) by (simp add: quiet_append)
  have "quiet_text (join_sep '', ''
      ((package_prefix self @ pkg_name (package self) @ ''-devel'') # provides_devel (package self)))"
    using own p(3) by (simp add: quiet_join)
  then have start: "quiet_text (''Provides: '' @ join_sep '', ''
      ((package_prefix self @ pkg_name (package self) @ ''-devel'') # provides_devel (package self)))"
    by simp
  have pco: "quiet_text (provides_conflicts_obsoletes_string
           (conflicts_devel (package self)) (replaces_obsoletes_devel (package self))
           (''Provides: '' @ join_sep '', ''
              ((package_prefix self @ pkg_name (package self) @ ''-devel'')
                 # provides_devel (package self))))"
    using p(4,5) start by (rule quiet_pco)
  have "list_all (quiet_piece (devel_args self)) devel_package_pieces"
    using assms(1) summary req pco
    by (simp add: devel_package_pieces_def devel_args_def)
  then obtain t where "render_pieces (devel_args self) devel_package_pieces = Inr t" "quiet_text t"
    using render_quiet by blast
  then show ?thesis
    by (simp add: DEVEL_PACKAGE_TPL_pieces py_format_pieces spec_pieces_plain)
qed

lemma spec_before_quiet:
  assumes meta: "\<not> build_meta_package (package self)"
    and quiet: "quiet_inputs (self\<lparr>resolved_devel_files := []\<rparr>) tarname tmpdir"
    and q: "quiet_text dp"
  shows "list_all (quiet_piece (dict_set (template_dict self tarname tmpdir rf dp df) ''scripts'' sc))
           spec_pieces_before"
proof -
  have v: "quiet_text (pkg_name (package self))" "quiet_text (package_prefix self)"
    "quiet_text (pkg_version (package self))" "quiet_text (full_package_name self)"
    "quiet_text (pkg_shortdesc (package self))" "quiet_text (pkg_longdesc (package self))"
    "quiet_text (pkg_vendor (package self))" "quiet_text (packager self)"
    "quiet_text (install_dir self)" "quiet_text (config_sources self)"
    "quiet_text tarname" "quiet_text tmpdir"
    using quiet by (simp_all add: quiet_inputs_def quiet_package_def)
  have p: "quiet_text (pkg_url (package self))" "quiet_text (pkg_license (package self))"
    "list_all quiet_text (provides_runtime (package self))"
    "list_all quiet_text (conflicts_runtime (package self))"
    "list_all quiet_text (replaces_obsoletes_runtime (package self))"
    "list_all quiet_text (requires_runtime self)" "list_all quiet_text (requires_devel self)"
    "list_all quiet_text (recipes_licenses self)"
    using quiet by (simp_all add: quiet_inputs_def quiet_package_def)
  have "quiet_text (pkg_url (package self) @ [CHR 0x0A])"
    using p(1) by (simp add: quiet_append)
  then have url: "quiet_text (''URL: '' @ pkg_url (package self) @ [CHR 0x0A])"
    by simp
  have lic: "quiet_text (licenses_string self)"
    using p(2,8) by (rule quiet_licenses)
  have req: "quiet_text (get_requires_string self RUNTIME)"
    using p(6,7) by (rule quiet_get_requires)
  have "quiet_text (join_sep '', '' (provides_runtime (package self)))"
    using p(3) by (simp add: quiet_join)
  then have "quiet_text (if provides_runtime (package self) \<noteq> []
            then ''Provides: '' @ join_sep '', '' (provides_runtime (package self)) else [])"
    by simp
  with p(4,5) have pco: "quiet_text (provides_conflicts_obsoletes_string
           (conflicts_runtime (package self)) (replaces_obsoletes_runtime (package self))
           (if provides_runtime (package self) \<noteq> []
            then ''Provides: '' @ join_sep '', '' (provides_runtime (package self)) else []))"
    by (rule quiet_pco)
  show ?thesis
    using meta v url lic req pco q
    by (simp add: spec_pieces_before_def template_dict_def map_of_dict_set)
qed

text \<open>
  The spec file of a package that is not a meta-package, when the development package is
  enabled, the inputs other than the names of the development files are such texts, and
  the scripts are formatted to \<open>sc\<close>: the text \<open>%files devel\<close> starts in it as often as in
  \<open>sc\<close> and in the block of the development files, which is its last line but for a line
  feed.
\<close>

lemma prepare_occurrences:
  assumes meta: "\<not> build_meta_package (package self)"
    and dev: "devel self"
    and quiet: "quiet_inputs (self\<lparr>resolved_devel_files := []\<rparr>) tarname tmpdir"
    and scripts: "rendered_scripts self tarname tmpdir = Inr sc"
  shows "\<exists>out dp df. devel_package_and_files self = Inr (dp, df)
           \<and> prepare self tarname tmpdir = Inr out
           \<and> occurrences ''%files devel'' (spec_str out)
               = occurrences ''%files devel'' sc + occurrences ''%files devel'' (df @ ''\<newline>'')"
proof -
  have lists: "list_all quiet_text (resolved_files self)" "quiet_text (install_dir self)"
    using quiet by (simp_all add: quiet_inputs_def)
  obtain rf where rf: "runtime_files_string self = Inr rf" "quiet_text rf"
    using runtime_files_string_quiet [OF meta lists] by blast
  obtain dp where dp: "py_format DEVEL_PACKAGE_TPL (devel_args self) = Inr dp" "quiet_text dp"
    using devel_package_quiet [OF meta quiet] by blast
  have "\<exists>df. devel_package_and_files self = Inr (dp, df)"
  proof (cases "resolved_devel_files self = []")
    case True
    then show ?thesis
      using meta
      by (simp add: devel_package_and_files_def dp(1) files_string_list_def
          packager_files_list_def Let_def)
  next
    case False
    then show ?thesis
      using meta
      by (simp add: devel_package_and_files_def dp(1) files_string_list_def
          packager_files_list_def Let_def)
  qed
  then obtain df where dpf: "devel_package_and_files self = Inr (dp, df)"
    by blast
  define d where "d = template_dict self tarname tmpdir rf dp df"
  have sc: "py_format (scripts_template (package self)) d = Inr sc"
    using scripts dev by (simp add: rendered_scripts_def rf(1) dpf d_def)
  have "list_all (quiet_piece (dict_set d ''scripts'' sc)) spec_pieces_before"
    unfolding d_def using meta quiet dp(2) by (rule spec_before_quiet)
  then obtain t1 where t1: "render_pieces (dict_set d ''scripts'' sc) spec_pieces_before = Inr t1"
    "quiet_text t1"
    using render_quiet by blast
  have look: "map_of (dict_set d ''scripts'' sc) ''scripts'' = Some sc"
    "map_of (dict_set d ''scripts'' sc) ''files'' = Some rf"
    "map_of (dict_set d ''scripts'' sc) ''devel_files'' = Some df"
    by (simp_all add: d_def template_dict_def map_of_dict_set)
  have mid: "render_pieces (dict_set d ''scripts'' sc) spec_pieces_middle
      = Inr (CHR 0x0A # ''\<newline>%files\<newline>'' @ rf @ ''\<newline>\<newline>'')"
    by (simp add: spec_pieces_middle_def look(2) prepend_def)
  have "py_format SPEC_TPL (dict_set d ''scripts'' sc)
      = render_pieces (dict_set d ''scripts'' sc)
          (spec_pieces_before @ Key ''scripts'' # spec_pieces_middle
             @ Key ''devel_files'' # spec_pieces_after)"
    unfolding SPEC_TPL_pieces using spec_pieces_plain(1) by (rule py_format_pieces)
  then have doc: "py_format SPEC_TPL (dict_set d ''scripts'' sc)
      = Inr (t1 @ sc @ (CHR 0x0A # ''\<newline>%files\<newline>'' @ rf @ ''\<newline>\<newline>'') @ df @ ''\<newline>'')"
    by (simp add: render_pieces_append t1(1) mid look(1,3) spec_pieces_after_def prepend_def)
  have out: "prepare self tarname tmpdir
      = Inr \<lparr>spec_path = path_join tmpdir (pkg_name (package self) @ ''.spec''),
             spec_str = t1 @ sc @ (CHR 0x0A # ''\<newline>%files\<newline>'' @ rf @ ''\<newline>\<newline>'')
                          @ df @ ''\<newline>'',
             has_runtime_package = (rf \<noteq> []), has_devel_package = (df \<noteq> [])\<rparr>"
    using meta dev sc doc
    by (simp add: prepare_def rf(1) dpf d_def [symmetric] Let_def)
  have middle: "quiet_text (''\<newline>%files\<newline>'' @ rf @ ''\<newline>\<newline>'')"
    using rf(2) by (simp add: quiet_append)
  have "occurrences ''%files devel''
          (t1 @ sc @ (CHR 0x0A # ''\<newline>%files\<newline>'' @ rf @ ''\<newline>\<newline>'') @ df @ ''\<newline>'')
      = occurrences ''%files devel''
          (sc @ CHR 0x0A # (''\<newline>%files\<newline>'' @ rf @ ''\<newline>\<newline>'') @ df @ ''\<newline>'')"
    using quiet_occurrences [OF t1(2)] by simp
  also have "\<dots> = occurrences ''%files devel'' sc
      + occurrences ''%files devel''
          (CHR 0x0A # (''\<newline>%files\<newline>'' @ rf @ ''\<newline>\<newline>'') @ df @ ''\<newline>'')"
    by (rule occurrences_line_feed)
  also have "occurrences ''%files devel''
          (CHR 0x0A # (''\<newline>%files\<newline>'' @ rf @ ''\<newline>\<newline>'') @ df @ ''\<newline>'')
      = occurrences ''%files devel'' (df @ ''\<newline>'')"
    using quiet_occurrences [OF middle, of "df @ ''\<newline>''"] by (simp add: startswith_simps)
  finally show ?thesis
    using out dpf by simp
qed

text \<open>
  The block of the development files: nothing when the resolved list is empty, and
  otherwise the line \<open>%files devel\<close> and the names, in which the text \<open>%files devel\<close>
  starts once when the names are such texts.
\<close>

lemma devel_files_block:
  assumes meta: "\<not> build_meta_package (package self)"
    and names: "list_all quiet_text (resolved_devel_files self)"
    and dpf: "devel_package_and_files self = Inr (dp, df)"
  shows "occurrences ''%files devel'' (df @ ''\<newline>'')
           = (if resolved_devel_files self = [] then 0 else 1)"
proof -
  obtain fsd where fsd: "quiet_text fsd"
    "files_string_list self DEVEL =
       (if resolved_devel_files self = [] then Inl EmptyPackageError else Inr fsd)"
    using files_string_list_quiet [of self DEVEL] meta names by auto
  have df: "df = (if resolved_devel_files self = [] then [] else ''%files devel \<newline>'' @ fsd)"
    using dpf by (auto simp: devel_package_and_files_def fsd(2) split: sum.splits)
  show ?thesis
  proof (cases "resolved_devel_files self = []")
    case True
    then show ?thesis
      by (simp add: df startswith_simps)
  next
    case False
    have "occurrences ''%files devel'' (fsd @ ''\<newline>'') = occurrences ''%files devel'' ''\<newline>''"
      using fsd(1) by (rule quiet_occurrences)
    then show ?thesis
      using False by (simp add: df startswith_simps)
  qed
qed

text \<open>When the scripts cannot be formatted, \<open>prepare\<close> raises what the formatting raises.\<close>

lemma prepare_scripts_error:
  assumes "rendered_scripts self tarname tmpdir = Inl e"
  shows "prepare self tarname tmpdir = Inl e"
proof (cases "runtime_files_string self")
  case (Inl a)
  then show ?thesis
    using assms by (simp add: rendered_scripts_def prepare_def)
next
  case rf: (Inr rf)
  show ?thesis
  proof (cases "if devel self then devel_package_and_files self else Inr ([], [])")
    case (Inl a)
    then show ?thesis
      using assms rf by (simp add: rendered_scripts_def prepare_def)
  next
    case (Inr both)
    obtain dp df where "both = (dp, df)"
      by (cases both)
    then show ?thesis
      using assms rf Inr by (simp add: rendered_scripts_def prepare_def Let_def)
  qed
qed

text \<open>
  The package \<open>base\<close>: its runtime files, its development package and the block of its
  development files.
\<close>

lemma example_script_packager_simps:
  "build_meta_package (package (example_script_packager script fs)) = False"
  "devel (example_script_packager script fs) = True"
  "resolved_devel_files (example_script_packager script fs) = fs"
  "scripts_template (package (example_script_packager script fs))
     = ''%%post\<newline>'' @ script @ ''\<newline>''"
  by (simp_all add: example_script_packager_def example_packager_def example_rpm_package_def
      scripts_template_def script_part_def POST_TPL_def)

lemma example_quiet_inputs:
  "quiet_inputs (example_script_packager script fs) ''gst-base-1.0.tar'' ''/tmp/b''
     = list_all quiet_text fs"
  "quiet_inputs ((example_script_packager script fs)\<lparr>resolved_devel_files := []\<rparr>)
     ''gst-base-1.0.tar'' ''/tmp/b''"
  by (simp_all add: quiet_inputs_def quiet_package_def example_script_packager_def
      example_packager_def example_rpm_package_def)

lemma example_runtime_files:
  "runtime_files_string (example_script_packager script fs)
     = Inr ''%{prefix}/bin/a\<newline>%{prefix}/lib/libA.so''"
  by (simp add: runtime_files_string_def files_string_list_def packager_files_list_def
      path_join_def startswith_def endswith_def add_compiled_def RUNTIME_def DEVEL_def
      example_script_packager_def example_packager_def example_rpm_package_def)

lemma example_devel_package:
  "py_format DEVEL_PACKAGE_TPL (devel_args (example_script_packager script fs))
     = Inr ''\<newline>%package devel\<newline>Requires: gst-base\<newline>\<newline>Summary: Development files for base\<newline>Provides: gst-base-devel\<newline>\<newline>%description devel\<newline>Development files for base\<newline>''"
  by (simp add: DEVEL_PACKAGE_TPL_pieces py_format_pieces spec_pieces_plain
      devel_package_pieces_def devel_args_def get_requires_string_def require_line_def
      provides_conflicts_obsoletes_string_def prepend_def DEVEL_def
      example_script_packager_def example_packager_def example_rpm_package_def)

lemma example_devel_files:
  "files_string_list (example_script_packager script [''include/a.h'']) DEVEL
     = Inr ''%{prefix}/include/a.h''"
  "files_string_list (example_script_packager script []) DEVEL = Inl EmptyPackageError"
  "files_string_list (example_script_packager script [''%files devel'']) DEVEL
     = Inr ''%{prefix}/%files devel''"
  by (simp_all add: files_string_list_def packager_files_list_def path_join_def startswith_def
      endswith_def add_compiled_def DEVEL_def
      example_script_packager_def example_packager_def example_rpm_package_def)

text \<open>
  What the post-install scripts are formatted to. The first is plain, the second uses the
  prefix, the third repeats the block of development files, the fourth is one line.
\<close>

lemma example_rendered_plain:
  "rendered_scripts (example_script_packager ''ldconfig'' [''%files devel''])
       ''gst-base-1.0.tar'' ''/tmp/b''
     = Inr ''%post\<newline>ldconfig\<newline>''"
proof -
  have t: "''%%post\<newline>ldconfig\<newline>'' = template_of [Lit ''%post\<newline>ldconfig\<newline>'']"
    by (simp add: template_of_def)
  have r: "py_format ''%%post\<newline>ldconfig\<newline>'' d = Inr ''%post\<newline>ldconfig\<newline>''" for d
    unfolding t
    by (simp add: py_format_pieces prepend_def)
  show ?thesis
    by (simp add: rendered_scripts_def example_script_packager_simps example_runtime_files
        devel_package_and_files_def example_devel_files example_devel_package r)
qed

lemma example_rendered_prefix:
  "rendered_scripts (example_script_packager ''install -d %(prefix)s/share'' [''include/a.h''])
       ''gst-base-1.0.tar'' ''/tmp/b''
     = Inr ''%post\<newline>install -d /usr/share\<newline>''"
  "rendered_scripts (example_script_packager ''install -d %(prefix)s/share'' [])
       ''gst-base-1.0.tar'' ''/tmp/b''
     = Inr ''%post\<newline>install -d /usr/share\<newline>''"
proof -
  have t: "''%%post\<newline>install -d %(prefix)s/share\<newline>''
      = template_of [Lit ''%post\<newline>install -d '', Key ''prefix'', Lit ''/share\<newline>'']"
    by (simp add: template_of_def)
  have r: "py_format ''%%post\<newline>install -d %(prefix)s/share\<newline>''
             (template_dict (example_script_packager ''install -d %(prefix)s/share'' fs) tarname tmpdir rf dp df)
      = Inr ''%post\<newline>install -d /usr/share\<newline>''" for fs tarname tmpdir rf dp df
    unfolding t
    by (simp add: py_format_pieces template_dict_def prepend_def
        example_script_packager_def example_packager_def)
  show "rendered_scripts (example_script_packager ''install -d %(prefix)s/share'' [''include/a.h''])
       ''gst-base-1.0.tar'' ''/tmp/b''
     = Inr ''%post\<newline>install -d /usr/share\<newline>''"
    by (simp add: rendered_scripts_def example_script_packager_simps example_runtime_files
        devel_package_and_files_def example_devel_files example_devel_package r)
  show "rendered_scripts (example_script_packager ''install -d %(prefix)s/share'' [])
       ''gst-base-1.0.tar'' ''/tmp/b''
     = Inr ''%post\<newline>install -d /usr/share\<newline>''"
    by (simp add: rendered_scripts_def example_script_packager_simps example_runtime_files
        devel_package_and_files_def example_devel_files example_devel_package r)
qed

lemma example_rendered_devel_files:
  "rendered_scripts (example_script_packager ''%(devel_files)s'' [''include/a.h''])
       ''gst-base-1.0.tar'' ''/tmp/b''
     = Inr ''%post\<newline>%files devel \<newline>%{prefix}/include/a.h\<newline>''"
proof -
  have t: "''%%post\<newline>%(devel_files)s\<newline>''
      = template_of [Lit ''%post\<newline>'', Key ''devel_files'', Lit ''\<newline>'']"
    by (simp add: template_of_def)
  have r: "py_format ''%%post\<newline>%(devel_files)s\<newline>''
             (template_dict self tarname tmpdir rf dp df)
      = Inr (''%post\<newline>'' @ df @ ''\<newline>'')" for self tarname tmpdir rf dp df
    unfolding t
    by (simp add: py_format_pieces template_dict_def prepend_def)
  show ?thesis
    by (simp add: rendered_scripts_def example_script_packager_simps example_runtime_files
        devel_package_and_files_def example_devel_files example_devel_package r)
qed

lemma example_rendered_line:
  "rendered_scripts (example_script_packager ''%%files devel'' [])
       ''gst-base-1.0.tar'' ''/tmp/b''
     = Inr ''%post\<newline>%files devel\<newline>''"
proof -
  have t: "''%%post\<newline>%%files devel\<newline>''
      = template_of [Lit ''%post\<newline>%files devel\<newline>'']"
    by (simp add: template_of_def)
  have r: "py_format ''%%post\<newline>%%files devel\<newline>'' d
      = Inr ''%post\<newline>%files devel\<newline>''" for d
    unfolding t
    by (simp add: py_format_pieces prepend_def)
  show ?thesis
    by (simp add: rendered_scripts_def example_script_packager_simps example_runtime_files
        devel_package_and_files_def example_devel_files example_devel_package r)
qed

text \<open>
  C7, as amended. For a packager of a package that is not a meta-package, with the
  development package enabled, when in none of the strings it is given (the names, the
  version, the descriptions, the licenses, the requirements, the file names, the
  directories, the tarball name) a percent sign begins \<open>%files devel\<close> or, at the end of
  the string, a beginning of it, and when the install scripts are formatted to a text in
  which \<open>%files devel\<close> does not occur: \<open>prepare\<close> renders a spec file, and the text
  \<open>%files devel\<close> starts exactly once in it when the resolved list of development files
  is not empty, and nowhere when that list is empty.
\<close>

theorem prepare_files_devel_block:
  assumes meta: "\<not> build_meta_package (package self)"
    and dev: "devel self"
    and quiet: "quiet_inputs self tarname tmpdir"
    and scripts: "rendered_scripts self tarname tmpdir = Inr sc"
    and none: "occurrences ''%files devel'' sc = 0"
  shows "\<exists>out. prepare self tarname tmpdir = Inr out
           \<and> occurrences ''%files devel'' (spec_str out)
               = (if resolved_devel_files self = [] then 0 else 1)"
proof -
  have others: "quiet_inputs (self\<lparr>resolved_devel_files := []\<rparr>) tarname tmpdir"
    using quiet by (simp add: quiet_inputs_def)
  have names: "list_all quiet_text (resolved_devel_files self)"
    using quiet by (simp add: quiet_inputs_def)
  obtain out dp df where out: "devel_package_and_files self = Inr (dp, df)"
    "prepare self tarname tmpdir = Inr out"
    "occurrences ''%files devel'' (spec_str out)
       = occurrences ''%files devel'' sc + occurrences ''%files devel'' (df @ ''\<newline>'')"
    using prepare_occurrences [OF meta dev others scripts] by blast
  show ?thesis
    using out(2,3) none devel_files_block [OF meta names out(1)] by simp
qed

text \<open>
  The package \<open>base\<close> with a post-install script that creates a directory under the
  prefix, with one header among its development files, and with none.
\<close>

theorem prepare_files_devel_block_witness:
  "(\<exists>out. prepare (example_script_packager ''install -d %(prefix)s/share'' [''include/a.h''])
             ''gst-base-1.0.tar'' ''/tmp/b'' = Inr out
          \<and> occurrences ''%files devel'' (spec_str out) = 1)
   \<and> (\<exists>out. prepare (example_script_packager ''install -d %(prefix)s/share'' [])
             ''gst-base-1.0.tar'' ''/tmp/b'' = Inr out
          \<and> occurrences ''%files devel'' (spec_str out) = 0)"
proof -
  have m: "\<not> build_meta_package (package (example_script_packager script fs))" for script fs
    by (simp add: example_script_packager_simps)
  have d: "devel (example_script_packager script fs)" for script fs
    by (simp add: example_script_packager_simps)
  have q1: "quiet_inputs (example_script_packager ''install -d %(prefix)s/share'' [''include/a.h''])
      ''gst-base-1.0.tar'' ''/tmp/b''"
    by (simp add: example_quiet_inputs)
  have q0: "quiet_inputs (example_script_packager ''install -d %(prefix)s/share'' [])
      ''gst-base-1.0.tar'' ''/tmp/b''"
    by (simp add: example_quiet_inputs)
  have n: "occurrences ''%files devel'' ''%post\<newline>install -d /usr/share\<newline>'' = 0"
    by (simp add: startswith_simps)
  show ?thesis
    using prepare_files_devel_block [OF m d q1 example_rendered_prefix(1) n]
      prepare_files_devel_block [OF m d q0 example_rendered_prefix(2) n]
    by (simp add: example_script_packager_simps)
qed

text \<open>
  C7 as it was stated does not hold for every package. With the post-install script
  \<open>%(devel_files)s\<close> and one header among the development files, the spec file is
  rendered and \<open>%files devel\<close> starts twice in it; with the post-install script
  \<open>%%files devel\<close> and no development files, the spec file is rendered and
  \<open>%files devel\<close> starts once in it; and with a plain script and a development file of
  the name \<open>%files devel\<close>, it starts twice.
\<close>

theorem prepare_files_devel_block_counterexample:
  "map_sum id (occurrences ''%files devel'' \<circ> spec_str)
       (prepare (example_script_packager ''%(devel_files)s'' [''include/a.h''])
          ''gst-base-1.0.tar'' ''/tmp/b'') = Inr 2
   \<and> map_sum id (occurrences ''%files devel'' \<circ> spec_str)
       (prepare (example_script_packager ''%%files devel'' [])
          ''gst-base-1.0.tar'' ''/tmp/b'') = Inr 1
   \<and> map_sum id (occurrences ''%files devel'' \<circ> spec_str)
       (prepare (example_script_packager ''ldconfig'' [''%files devel''])
          ''gst-base-1.0.tar'' ''/tmp/b'') = Inr 2"
proof -
  have m: "\<not> build_meta_package (package (example_script_packager script fs))" for script fs
    by (simp add: example_script_packager_simps)
  have d: "devel (example_script_packager script fs)" for script fs
    by (simp add: example_script_packager_simps)
  have q: "quiet_inputs ((example_script_packager script fs)\<lparr>resolved_devel_files := []\<rparr>)
      ''gst-base-1.0.tar'' ''/tmp/b''" for script fs
    by (rule example_quiet_inputs(2))
  have b: "devel_package_and_files (example_script_packager script [''include/a.h''])
             = Inr (dp, df) \<Longrightarrow> df = ''%files devel \<newline>%{prefix}/include/a.h''"
    "devel_package_and_files (example_script_packager script []) = Inr (dp, df) \<Longrightarrow> df = []"
    "devel_package_and_files (example_script_packager script [''%files devel''])
             = Inr (dp, df) \<Longrightarrow> df = ''%files devel \<newline>%{prefix}/%files devel''"
    for script dp df
    by (auto simp: devel_package_and_files_def example_devel_files example_devel_package)
  have n: "occurrences ''%files devel'' ''%post\<newline>%files devel \<newline>%{prefix}/include/a.h\<newline>'' = 1"
    "occurrences ''%files devel'' ''%post\<newline>%files devel\<newline>'' = 1"
    "occurrences ''%files devel'' ''%post\<newline>ldconfig\<newline>'' = 0"
    "occurrences ''%files devel'' ''%files devel \<newline>%{prefix}/include/a.h\<newline>'' = 1"
    "occurrences ''%files devel'' ''%files devel \<newline>%{prefix}/%files devel\<newline>'' = 2"
    "occurrences ''%files devel'' ''\<newline>'' = 0"
    "(1::nat) + 1 = 2" "(1::nat) + 0 = 1" "(0::nat) + 2 = 2"
    by (simp_all add: startswith_simps)
  have 1: "map_sum id (occurrences ''%files devel'' \<circ> spec_str)
       (prepare (example_script_packager ''%(devel_files)s'' [''include/a.h''])
          ''gst-base-1.0.tar'' ''/tmp/b'') = Inr 2"
  proof -
    obtain out dp df where o:
      "devel_package_and_files (example_script_packager ''%(devel_files)s'' [''include/a.h'']) = Inr (dp, df)"
      "prepare (example_script_packager ''%(devel_files)s'' [''include/a.h'']) ''gst-base-1.0.tar'' ''/tmp/b'' = Inr out"
      "occurrences ''%files devel'' (spec_str out)
         = occurrences ''%files devel'' ''%post\<newline>%files devel \<newline>%{prefix}/include/a.h\<newline>''
           + occurrences ''%files devel'' (df @ ''\<newline>'')"
      using prepare_occurrences [OF m d q example_rendered_devel_files] by blast
    have "df @ ''\<newline>'' = ''%files devel \<newline>%{prefix}/include/a.h\<newline>''"
      using b(1) [OF o(1)] by simp
    then have "occurrences ''%files devel'' (spec_str out) = 2"
      using o(3) by (simp only: n)
    then show ?thesis
      by (simp add: o(2))
  qed
  have 2: "map_sum id (occurrences ''%files devel'' \<circ> spec_str)
       (prepare (example_script_packager ''%%files devel'' [])
          ''gst-base-1.0.tar'' ''/tmp/b'') = Inr 1"
  proof -
    obtain out dp df where o:
      "devel_package_and_files (example_script_packager ''%%files devel'' []) = Inr (dp, df)"
      "prepare (example_script_packager ''%%files devel'' []) ''gst-base-1.0.tar'' ''/tmp/b'' = Inr out"
      "occurrences ''%files devel'' (spec_str out)
         = occurrences ''%files devel'' ''%post\<newline>%files devel\<newline>''
           + occurrences ''%files devel'' (df @ ''\<newline>'')"
      using prepare_occurrences [OF m d q example_rendered_line] by blast
    have "df @ ''\<newline>'' = ''\<newline>''"
      using b(2) [OF o(1)] by simp
    then have "occurrences ''%files devel'' (spec_str out) = 1"
      using o(3) by (simp only: n)
    then show ?thesis
      by (simp add: o(2))
  qed
  have 3: "map_sum id (occurrences ''%files devel'' \<circ> spec_str)
       (prepare (example_script_packager ''ldconfig'' [''%files devel''])
          ''gst-base-1.0.tar'' ''/tmp/b'') = Inr 2"
  proof -
    obtain out dp df where o:
      "devel_package_and_files (example_script_packager ''ldconfig'' [''%files devel'']) = Inr (dp, df)"
      "prepare (example_script_packager ''ldconfig'' [''%files devel'']) ''gst-base-1.0.tar'' ''/tmp/b'' = Inr out"
      "occurrences ''%files devel'' (spec_str out)
         = occurrences ''%files devel'' ''%post\<newline>ldconfig\<newline>''
           + occurrences ''%files devel'' (df @ ''\<newline>'')"
      using prepare_occurrences [OF m d q example_rendered_plain] by blast
    have "df @ ''\<newline>'' = ''%files devel \<newline>%{prefix}/%files devel\<newline>''"
      using b(3) [OF o(1)] by simp
    then have "occurrences ''%files devel'' (spec_str out) = 2"
      using o(3) by (simp only: n)
    then show ?thesis
      by (simp add: o(2))
  qed
  show ?thesis
    using 1 2 3 by simp
qed


end
